theory Spec2Isabelle
  imports Complex_Main "HOL-Library.Word"
begin

section \<open>The artifact reporter (src/artifact\_reporter.cpp)\<close>

text \<open>
  The node has three callbacks, \<open>BaseStationCallback\<close>, \<open>ReportArtifacts\<close> and
  \<open>ProcessDetection\<close>, and two helpers, \<open>CropPointCloud\<close> and \<open>GetCentroid\<close>.  They are
  embedded as functions over an explicit state that holds the two globals
  \<open>artifact_to_report\<close> and \<open>have_an_artifact_to_report\<close> together with the two observable
  effects of the node: the lines written to the ROS log and the messages handed to the
  communication client.

  Conventions of the embedding.
  \<^item> \<open>uint32_t\<close> message fields and \<open>size_t\<close> counters are natural numbers; every place
    where the C++ converts or can wrap is written out (\<open>mod 2 ^ 32\<close>, \<open>mod 2 ^ 64\<close>;
    \<open>size_t\<close> is taken to be 64 bits wide).  The bounds of a bounding box are signed
    integers; their differences are computed in the integers and then converted.
  \<^item> A \<open>float\<close>/\<open>double\<close> is a value of type \<open>fl\<close>: a finite value (a real number), an
    infinity or NaN.  Sums and quotients of \<open>float\<close>s are rounded to the nearest \<open>float\<close>
    (IEEE 754 binary32, ties to even) and overflow to an infinity.  The sign of a zero is
    not represented.
  \<^item> An exception is a value of type \<open>tf2_exception\<close>.  A call of \<open>CropPointCloud\<close> that has
    no defined result is marked by a value of type \<open>fault\<close>.
  \<^item> Calls into other packages (protobuf, tf2, PCL's message conversion, the helper
    \<open>ToTransformStamped\<close>, the clock) are arguments of the functions that make them.
\<close>

subsection \<open>Data\<close>

type_synonym byte = "8 word"

datatype fl = Finite real | PInf | NInf | NaN

record Point =
  p_x :: fl
  p_y :: fl
  p_z :: fl

record Header =
  frame_id :: string
  stamp :: nat

record PoseStamped =
  pose_header :: Header
  position :: Point
  orientation :: "fl \<times> fl \<times> fl \<times> fl"

record PointField =
  field_name :: string
  field_offset :: nat
  field_datatype :: nat
  field_count :: nat

record PointCloud2 =
  header :: Header
  height :: nat
  width :: nat
  pc_fields :: "PointField list"
  is_bigendian :: bool
  point_step :: nat
  row_step :: nat
  data :: "byte list"
  is_dense :: bool

text \<open>
  The fields of \<open>darknet_ros_msgs::BoundingBox\<close> that the file reads: the label and the
  four signed 64-bit pixel bounds.
\<close>

record BoundingBox =
  Class :: string
  xmin :: int
  ymin :: int
  xmax :: int
  ymax :: int

text \<open>
  The enumerators of \<open>subt::ArtifactType\<close> (declared in \<open>subt_ign/CommonTypes.hh\<close>)
  that the file uses.
\<close>

datatype ArtifactType =
  TYPE_BACKPACK | TYPE_RESCUE_RANDY | TYPE_PHONE | TYPE_EXTINGUISHER | TYPE_DRILL

record Artifact =
  type :: ArtifactType
  location :: Point

text \<open>The protobuf message \<open>subt::msgs::Artifact\<close> that \<open>ReportArtifacts\<close> fills.\<close>

record ArtifactMsg =
  msg_type :: ArtifactType
  msg_pose :: Point

text \<open>The globals read by the callbacks (set once in \<open>main\<close>).\<close>

record config =
  robot_name :: string
  camera_frame :: string
  object_frame :: string
  artifact_origin_frame :: string

datatype log_entry =
  ERROR_deserializing
  | INFO_received Point
  | ERROR_serializing ArtifactMsg
  | INFO_detected string string Point

record world =
  artifact_to_report :: Artifact
  have_an_artifact_to_report :: bool
  ros_log :: "log_entry list"
  sent :: "(string \<times> string) list"

datatype fault =
  InvalidRead
  | NoReturn

text \<open>
  The two ways in which a call of \<open>CropPointCloud\<close> has no defined result.
  \<open>InvalidRead\<close>: the call evaluates \<open>original_pc->data[i]\<close> with \<open>i\<close> past the end of the
  vector; the index operator is unchecked, and from that read on the behaviour of the
  program is undefined.  \<open>NoReturn\<close>: the loops of the call go on for ever.
\<close>

datatype tf2_exception = TransformException

text \<open>
  The exception thrown by \<open>tf_buffer.transform\<close>.  No function of the file catches it.
\<close>

subsection \<open>Floating point values\<close>

fun isinf :: "fl \<Rightarrow> bool" where
  "isinf PInf = True"
| "isinf NInf = True"
| "isinf (Finite v) = False"
| "isinf NaN = False"

text \<open>
  Rounding of a real number to \<open>float\<close>.  A \<open>float\<close> has a significand of 24 bits and a
  binary exponent between -126 and 127: around \<open>x\<close> with \<open>2 ^ e \<le> |x| < 2 ^ (e + 1)\<close> the
  \<open>float\<close>s are the multiples of \<open>2 ^ (e - 23)\<close>, and of \<open>2 ^ - 149\<close> when \<open>e < - 126\<close>.  The
  rounded value is the nearest multiple, the one with the even multiplier when two are
  equally near; a value that reaches \<open>2 ^ 128\<close> overflows to an infinity.
\<close>

definition round_half_even :: "real \<Rightarrow> int" where
  "round_half_even y =
     (if y - of_int \<lfloor>y\<rfloor> < 1 / 2 then \<lfloor>y\<rfloor>
      else if 1 / 2 < y - of_int \<lfloor>y\<rfloor> then \<lfloor>y\<rfloor> + 1
      else if even \<lfloor>y\<rfloor> then \<lfloor>y\<rfloor> else \<lfloor>y\<rfloor> + 1)"

definition float_quantum :: "real \<Rightarrow> real" where
  "float_quantum x = 2 powi (max \<lfloor>log 2 \<bar>x\<bar>\<rfloor> (- 126) - 23)"

definition round_float :: "real \<Rightarrow> fl" where
  "round_float x =
     (let v = of_int (round_half_even (x / float_quantum x)) * float_quantum x
      in if 2 ^ 128 \<le> v then PInf else if v \<le> - (2 ^ 128) then NInf else Finite v)"

text \<open>The sum of two \<open>float\<close>s.\<close>

fun fl_add :: "fl \<Rightarrow> fl \<Rightarrow> fl" where
  "fl_add NaN b = NaN"
| "fl_add a NaN = NaN"
| "fl_add PInf NInf = NaN"
| "fl_add NInf PInf = NaN"
| "fl_add PInf b = PInf"
| "fl_add a PInf = PInf"
| "fl_add NInf b = NInf"
| "fl_add a NInf = NInf"
| "fl_add (Finite a) (Finite b) = round_float (a + b)"

text \<open>
  The quotient of a \<open>float\<close> by a count (the number of accumulated points): the count is
  converted to \<open>float\<close>, then the two \<open>float\<close>s are divided.
\<close>

definition fl_div :: "fl \<Rightarrow> nat \<Rightarrow> fl" where
  "fl_div a n =
     (case round_float (real n) of
        Finite d \<Rightarrow>
          (case a of
             Finite v \<Rightarrow>
               if d = 0 then (if v = 0 then NaN else if 0 < v then PInf else NInf)
               else round_float (v / d)
           | PInf \<Rightarrow> PInf
           | NInf \<Rightarrow> NInf
           | NaN \<Rightarrow> NaN)
      | _ \<Rightarrow> (case a of Finite v \<Rightarrow> Finite 0 | _ \<Rightarrow> NaN))"

subsection \<open>\<open>pcl::CentroidPoint<pcl::PointXYZ>\<close>\<close>

text \<open>
  The accumulator of PCL: \<open>add\<close> adds the coordinates to a running sum of \<open>float\<close>s and
  counts the point; \<open>get\<close> writes sum / count into its argument when at least one point
  was added and leaves the argument as it is otherwise.  A \<open>pcl::PointXYZ\<close> is
  constructed as (0, 0, 0).
\<close>

record CentroidPoint =
  xyz :: Point
  num_points :: nat

definition CentroidPoint_init :: CentroidPoint where
  "CentroidPoint_init =
     \<lparr>xyz = \<lparr>p_x = Finite 0, p_y = Finite 0, p_z = Finite 0\<rparr>, num_points = 0\<rparr>"

definition PointXYZ_init :: Point where
  "PointXYZ_init = \<lparr>p_x = Finite 0, p_y = Finite 0, p_z = Finite 0\<rparr>"

definition CentroidPoint_add :: "CentroidPoint \<Rightarrow> Point \<Rightarrow> CentroidPoint" where
  "CentroidPoint_add c p =
     \<lparr>xyz = \<lparr>p_x = fl_add (p_x (xyz c)) (p_x p),
              p_y = fl_add (p_y (xyz c)) (p_y p),
              p_z = fl_add (p_z (xyz c)) (p_z p)\<rparr>,
      num_points = num_points c + 1\<rparr>"

definition CentroidPoint_get :: "CentroidPoint \<Rightarrow> Point \<Rightarrow> Point" where
  "CentroidPoint_get c p =
     (if num_points c \<noteq> 0
      then \<lparr>p_x = fl_div (p_x (xyz c)) (num_points c),
            p_y = fl_div (p_y (xyz c)) (num_points c),
            p_z = fl_div (p_z (xyz c)) (num_points c)\<rparr>
      else p)"

subsection \<open>\<open>CropPointCloud\<close>\<close>

text \<open>Conversions of a signed bound to \<open>size_t\<close> and to \<open>uint32_t\<close>.\<close>

definition to_size_t :: "int \<Rightarrow> nat" where
  "to_size_t v = nat (v mod 2 ^ 64)"

definition to_uint32 :: "int \<Rightarrow> nat" where
  "to_uint32 v = nat (v mod 2 ^ 32)"

text \<open>The innermost loop: \<open>for (size_t i = start; i < end; ++i) push_back(data[i])\<close>.\<close>

function copy_bytes :: "byte list \<Rightarrow> nat \<Rightarrow> nat \<Rightarrow> byte list \<Rightarrow> fault + byte list" where
  "copy_bytes src i end_i acc =
     (if i < end_i
      then (if i < length src then copy_bytes src (i + 1) end_i (acc @ [src ! i])
            else Inl InvalidRead)
      else Inr acc)"
  by pat_completeness auto
termination
  by (relation "measure (\<lambda>(src, i, end_i, acc). end_i - i)") auto

text \<open>
  The loop over the columns: \<open>for (size_t c = bb.xmin; c <= bb.xmax; ++c)\<close>.  The counter
  wraps at \<open>2 ^ 64\<close>.  The loop need not end: the result is \<open>None\<close> then.
\<close>

partial_function (option) crop_cols ::
  "PointCloud2 \<Rightarrow> nat \<Rightarrow> nat \<Rightarrow> nat \<Rightarrow> byte list \<Rightarrow> (fault + byte list) option" where
  "crop_cols original_pc r c c_max acc =
     (if c \<le> c_max
      then (let start = (r * row_step original_pc + c * point_step original_pc) mod 2 ^ 64;
                end_i = (start + point_step original_pc) mod 2 ^ 64
            in case copy_bytes (data original_pc) start end_i acc of
                 Inl e \<Rightarrow> Some (Inl e)
               | Inr acc' \<Rightarrow> crop_cols original_pc r ((c + 1) mod 2 ^ 64) c_max acc')
      else Some (Inr acc))"

text \<open>The loop over the rows: \<open>for (size_t r = bb.ymin; r <= bb.ymax; ++r)\<close>.\<close>

partial_function (option) crop_rows ::
  "PointCloud2 \<Rightarrow> nat \<Rightarrow> nat \<Rightarrow> nat \<Rightarrow> nat \<Rightarrow> byte list \<Rightarrow> (fault + byte list) option" where
  "crop_rows original_pc r r_max c_min c_max acc =
     (if r \<le> r_max
      then (case crop_cols original_pc r c_min c_max acc of
              None \<Rightarrow> None
            | Some (Inl e) \<Rightarrow> Some (Inl e)
            | Some (Inr acc') \<Rightarrow>
                crop_rows original_pc ((r + 1) mod 2 ^ 64) r_max c_min c_max acc')
      else Some (Inr acc))"

definition CropPointCloud :: "PointCloud2 \<Rightarrow> BoundingBox \<Rightarrow> fault + PointCloud2" where
  "CropPointCloud original_pc bb =
     (let new_height = to_uint32 (ymax bb - ymin bb + 1);
          new_width = to_uint32 (xmax bb - xmin bb + 1);
          modified_pc =
            \<lparr>header = header original_pc,
             height = new_height,
             width = new_width,
             pc_fields = pc_fields original_pc,
             is_bigendian = is_bigendian original_pc,
             point_step = point_step original_pc,
             row_step = (new_width * point_step original_pc) mod 2 ^ 32,
             data = [],
             is_dense = is_dense original_pc\<rparr>
      in case crop_rows original_pc (to_size_t (ymin bb)) (to_size_t (ymax bb))
                (to_size_t (xmin bb)) (to_size_t (xmax bb)) [] of
           None \<Rightarrow> Inl NoReturn
         | Some (Inl e) \<Rightarrow> Inl e
         | Some (Inr bytes) \<Rightarrow> Inr (modified_pc\<lparr>data := bytes\<rparr>))"

text \<open>
  Notions used to state what \<open>CropPointCloud\<close> computes: the bytes of the point at
  pixel (c, r) of a cloud, the points and the bytes of a rectangle of pixels in
  row-major order, the well-formedness of a \<open>sensor_msgs::PointCloud2\<close> (its fields
  are \<open>uint32_t\<close>, a row holds \<open>width\<close> points, the buffer holds \<open>height\<close> rows), a box
  that lies inside the cloud, and a box whose every addressed byte lies inside the
  buffer.
\<close>

definition point_bytes :: "PointCloud2 \<Rightarrow> nat \<Rightarrow> nat \<Rightarrow> byte list" where
  "point_bytes pc c r =
     take (point_step pc) (drop (r * row_step pc + c * point_step pc) (data pc))"

definition region_bytes :: "PointCloud2 \<Rightarrow> nat \<Rightarrow> nat \<Rightarrow> nat \<Rightarrow> nat \<Rightarrow> byte list" where
  "region_bytes pc r_min r_max c_min c_max =
     concat (map (\<lambda>r. concat (map (\<lambda>c. point_bytes pc c r) [c_min..<Suc c_max]))
       [r_min..<Suc r_max])"

definition StructuredPointCloud :: "PointCloud2 \<Rightarrow> bool" where
  "StructuredPointCloud pc \<longleftrightarrow>
     height pc < 2 ^ 32 \<and> width pc < 2 ^ 32 \<and> point_step pc < 2 ^ 32 \<and> row_step pc < 2 ^ 32 \<and>
     length (data pc) < 2 ^ 64 \<and>
     width pc * point_step pc \<le> row_step pc \<and>
     height pc * row_step pc \<le> length (data pc)"

definition in_range :: "PointCloud2 \<Rightarrow> BoundingBox \<Rightarrow> bool" where
  "in_range pc bb \<longleftrightarrow>
     0 \<le> xmin bb \<and> xmin bb \<le> xmax bb \<and> xmax bb < int (width pc) \<and>
     0 \<le> ymin bb \<and> ymin bb \<le> ymax bb \<and> ymax bb < int (height pc)"

definition region_points :: "PointCloud2 \<Rightarrow> nat \<Rightarrow> nat \<Rightarrow> nat \<Rightarrow> nat \<Rightarrow> byte list list" where
  "region_points pc r_min r_max c_min c_max =
     concat (map (\<lambda>r. map (\<lambda>c. point_bytes pc c r) [c_min..<Suc c_max]) [r_min..<Suc r_max])"

definition reads_in_buffer :: "PointCloud2 \<Rightarrow> BoundingBox \<Rightarrow> bool" where
  "reads_in_buffer pc bb \<longleftrightarrow>
     0 \<le> xmin bb \<and> xmin bb \<le> xmax bb \<and> xmax bb < 2 ^ 63 \<and>
     0 \<le> ymin bb \<and> ymin bb \<le> ymax bb \<and> ymax bb < 2 ^ 63 \<and>
     nat (ymax bb) * row_step pc + (nat (xmax bb) + 1) * point_step pc \<le> length (data pc) \<and>
     length (data pc) < 2 ^ 64"

text \<open>
  A box that addresses a byte past the end of the buffer (with a positive point step and
  offsets that fit \<open>size_t\<close>), and a box of that kind for the sample cloud.
\<close>

definition reads_past_buffer :: "PointCloud2 \<Rightarrow> BoundingBox \<Rightarrow> bool" where
  "reads_past_buffer pc bb \<longleftrightarrow>
     0 \<le> xmin bb \<and> xmin bb \<le> xmax bb \<and> xmax bb < 2 ^ 63 \<and>
     0 \<le> ymin bb \<and> ymin bb \<le> ymax bb \<and> ymax bb < 2 ^ 63 \<and>
     0 < point_step pc \<and>
     length (data pc) < nat (ymax bb) * row_step pc + (nat (xmax bb) + 1) * point_step pc \<and>
     nat (ymax bb) * row_step pc + (nat (xmax bb) + 1) * point_step pc < 2 ^ 64"

definition box_below :: BoundingBox where
  "box_below = \<lparr>Class = ''Drill'', xmin = 0, ymin = 1, xmax = 1, ymax = 2\<rparr>"

definition cloud_2x2 :: PointCloud2 where
  "cloud_2x2 =
     \<lparr>header = \<lparr>frame_id = ''camera'', stamp = 7\<rparr>, height = 2, width = 2, pc_fields = [],
      is_bigendian = False, point_step = 2, row_step = 4,
      data = [1, 2, 3, 4, 5, 6, 7, 8], is_dense = False\<rparr>"

definition box_right_column :: BoundingBox where
  "box_right_column = \<lparr>Class = ''Drill'', xmin = 1, ymin = 0, xmax = 1, ymax = 1\<rparr>"

definition box_too_wide :: BoundingBox where
  "box_too_wide = \<lparr>Class = ''Drill'', xmin = 1, ymin = 0, xmax = 2, ymax = 0\<rparr>"

definition box_minus_one :: BoundingBox where
  "box_minus_one = \<lparr>Class = ''Drill'', xmin = 0, ymin = 0, xmax = - 1, ymax = 0\<rparr>"

definition cloud_no_step :: PointCloud2 where
  "cloud_no_step = cloud_2x2\<lparr>point_step := 0\<rparr>"

subsection \<open>\<open>GetCentroid\<close>\<close>

text \<open>
  The loop \<open>for (auto &p : pclObj.points)\<close>: a point with an infinite coordinate is
  skipped, every other point is added to the accumulator.
\<close>

fun accumulate :: "CentroidPoint \<Rightarrow> Point list \<Rightarrow> CentroidPoint" where
  "accumulate centroid [] = centroid"
| "accumulate centroid (p # ps) =
     (if isinf (p_x p) \<or> isinf (p_y p) \<or> isinf (p_z p)
      then accumulate centroid ps
      else accumulate (CentroidPoint_add centroid p) ps)"

text \<open>
  \<open>fromPCL\<close> stands for the two conversions \<open>pcl_conversions::toPCL\<close> and
  \<open>pcl::fromPCLPointCloud2\<close> (the points decoded from the message), \<open>now\<close> for the value
  of \<open>ros::Time::now()\<close>.
\<close>

definition GetCentroid ::
  "(PointCloud2 \<Rightarrow> Point list) \<Rightarrow> config \<Rightarrow> nat \<Rightarrow> PointCloud2 \<Rightarrow> PoseStamped" where
  "GetCentroid fromPCL cfg now original_pc =
     (let pclObj = fromPCL original_pc;
          centroid = accumulate CentroidPoint_init pclObj;
          location = CentroidPoint_get centroid PointXYZ_init
      in \<lparr>pose_header = \<lparr>frame_id = camera_frame cfg, stamp = now\<rparr>,
          position = \<lparr>p_x = p_x location, p_y = p_y location, p_z = p_z location\<rparr>,
          orientation = (Finite 0, Finite 0, Finite 0, Finite 1)\<rparr>)"

subsection \<open>\<open>BaseStationCallback\<close>\<close>

text \<open>
  \<open>ParseFromString\<close> returns the success flag of protobuf's parser and the position
  \<open>res.artifact().pose().position()\<close> of the message \<open>res\<close> as the parser left it.
\<close>

definition BaseStationCallback ::
  "(string \<Rightarrow> bool \<times> Point) \<Rightarrow> string \<Rightarrow> string \<Rightarrow> nat \<Rightarrow> string \<Rightarrow> world \<Rightarrow> world" where
  "BaseStationCallback ParseFromString srcAddress dstAddress dstPort data_in s =
     (let (ok, res) = ParseFromString data_in;
          s1 = (if \<not> ok then s\<lparr>ros_log := ros_log s @ [ERROR_deserializing]\<rparr> else s);
          location = \<lparr>p_x = p_x res, p_y = p_y res, p_z = p_z res\<rparr>;
          s2 = s1\<lparr>ros_log := ros_log s1 @ [INFO_received location]\<rparr>
      in s2\<lparr>have_an_artifact_to_report := False\<rparr>)"

subsection \<open>\<open>ReportArtifacts\<close>\<close>

text \<open>
  \<open>SerializeToString\<close> returns protobuf's success flag and the contents of the output
  string after the call; \<open>kBaseStationName\<close> is the constant of \<open>subt_ign/CommonTypes.hh\<close>.
  A call of \<open>commsClient.SendTo\<close> appends the pair (payload, destination) to \<open>sent\<close>.
\<close>

definition ReportArtifacts ::
  "(ArtifactMsg \<Rightarrow> bool \<times> string) \<Rightarrow> string \<Rightarrow> world \<Rightarrow> world" where
  "ReportArtifacts SerializeToString kBaseStationName s =
     (if \<not> have_an_artifact_to_report s then s
      else
        (let location = location (artifact_to_report s);
             artifact = \<lparr>msg_type = type (artifact_to_report s),
                         msg_pose = \<lparr>p_x = p_x location, p_y = p_y location, p_z = p_z location\<rparr>\<rparr>;
             (ok, serializedData) = SerializeToString artifact;
             s1 = (if \<not> ok then s\<lparr>ros_log := ros_log s @ [ERROR_serializing artifact]\<rparr> else s)
         in s1\<lparr>sent := sent s1 @ [(serializedData, kBaseStationName)]\<rparr>))"

text \<open>The timer calls \<open>ReportArtifacts\<close> once per tick.\<close>

fun ticks ::
  "nat \<Rightarrow> (ArtifactMsg \<Rightarrow> bool \<times> string) \<Rightarrow> string \<Rightarrow> world \<Rightarrow> world" where
  "ticks 0 SerializeToString kBaseStationName s = s"
| "ticks (Suc n) SerializeToString kBaseStationName s =
     ticks n SerializeToString kBaseStationName
       (ReportArtifacts SerializeToString kBaseStationName s)"

subsection \<open>\<open>ProcessDetection\<close>\<close>

text \<open>
  The body shared by the five \<open>if (box.Class == ...)\<close> blocks: the type and the three
  coordinates are stored, the flag is set and the detection is logged.
\<close>

definition store_artifact ::
  "ArtifactType \<Rightarrow> string \<Rightarrow> PoseStamped \<Rightarrow> config \<Rightarrow> world \<Rightarrow> world" where
  "store_artifact t what scoring_pose cfg s =
     (let s1 = s\<lparr>artifact_to_report :=
                   \<lparr>type = t,
                    location = \<lparr>p_x = p_x (position scoring_pose),
                                p_y = p_y (position scoring_pose),
                                p_z = p_z (position scoring_pose)\<rparr>\<rparr>,
                 have_an_artifact_to_report := True\<rparr>
      in s1\<lparr>ros_log := ros_log s1 @
               [INFO_detected what (artifact_origin_frame cfg) (location (artifact_to_report s1))]\<rparr>)"

text \<open>
  One iteration of \<open>for (const auto & box : bb_msg->bounding_boxes)\<close>.  \<open>tf_buffer\<close> is
  \<open>tf_buffer.transform\<close> with its timeout of one second: it gives the transformed pose
  or throws.  The value of \<open>ToTransformStamped\<close> is bound and not used, as in the source.

  The result is \<open>Some (Inr s')\<close> when the iteration ends with the state \<open>s'\<close> of the
  globals, and \<open>Some (Inl e)\<close> when it throws \<open>e\<close>.  It is \<open>None\<close> when the call of
  \<open>CropPointCloud\<close> has no defined result: when it reads past the end of the buffer,
  the behaviour of the program is undefined from there on, and nothing is said about
  what the iteration does or leaves behind; when it does not return, neither does the
  iteration.
\<close>

definition process_box ::
  "(PointCloud2 \<Rightarrow> Point list) \<Rightarrow> (PoseStamped \<Rightarrow> string \<Rightarrow> string \<Rightarrow> 'ts) \<Rightarrow>
   (PoseStamped \<Rightarrow> string \<Rightarrow> tf2_exception + PoseStamped) \<Rightarrow> config \<Rightarrow> nat \<Rightarrow>
   PointCloud2 \<Rightarrow> BoundingBox \<Rightarrow> world \<Rightarrow> (tf2_exception + world) option" where
  "process_box fromPCL ToTransformStamped tf_buffer cfg now cloud_msg box s =
     (case CropPointCloud cloud_msg box of
        Inl no_result \<Rightarrow> None
      | Inr cropped_pc \<Rightarrow>
          (let centroid = GetCentroid fromPCL cfg now cropped_pc;
               tf_stamped = ToTransformStamped centroid (camera_frame cfg) (object_frame cfg)
           in case tf_buffer centroid (artifact_origin_frame cfg) of
                Inl e \<Rightarrow> Some (Inl e)
              | Inr scoring_pose \<Rightarrow>
                  (let s1 = (if Class box = ''Backpack''
                             then store_artifact TYPE_BACKPACK ''Detected a backapack!''
                                    scoring_pose cfg s
                             else s);
                       s2 = (if Class box = ''Survivor''
                             then store_artifact TYPE_RESCUE_RANDY ''Detected a survivor!''
                                    scoring_pose cfg s1
                             else s1);
                       s3 = (if Class box = ''Cell Phone''
                             then store_artifact TYPE_PHONE ''Detected a cell phone!''
                                    scoring_pose cfg s2
                             else s2);
                       s4 = (if Class box = ''Fire Extinguisher''
                             then store_artifact TYPE_EXTINGUISHER ''Detected a fire extinguisher!''
                                    scoring_pose cfg s3
                             else s3);
                       s5 = (if Class box = ''Drill''
                             then store_artifact TYPE_DRILL ''Detected a drill!''
                                    scoring_pose cfg s4
                             else s4)
                   in Some (Inr s5))))"

text \<open>
  The loop over the boxes.  \<open>now k\<close> is the clock as read in the iteration for the box
  of index \<open>k\<close>.  An exception leaves the loop and the function; it is returned with the
  state of the globals at that moment.  An iteration without a defined result leaves
  the loop without one.
\<close>

fun process_boxes ::
  "(PointCloud2 \<Rightarrow> Point list) \<Rightarrow> (PoseStamped \<Rightarrow> string \<Rightarrow> string \<Rightarrow> 'ts) \<Rightarrow>
   (PoseStamped \<Rightarrow> string \<Rightarrow> tf2_exception + PoseStamped) \<Rightarrow> config \<Rightarrow> (nat \<Rightarrow> nat) \<Rightarrow>
   PointCloud2 \<Rightarrow> BoundingBox list \<Rightarrow> nat \<Rightarrow> world \<Rightarrow>
   (tf2_exception \<times> world + world) option" where
  "process_boxes fromPCL ToTransformStamped tf_buffer cfg now cloud_msg [] k s = Some (Inr s)"
| "process_boxes fromPCL ToTransformStamped tf_buffer cfg now cloud_msg (box # boxes) k s =
     (case process_box fromPCL ToTransformStamped tf_buffer cfg (now k) cloud_msg box s of
        None \<Rightarrow> None
      | Some (Inl e) \<Rightarrow> Some (Inl (e, s))
      | Some (Inr s') \<Rightarrow>
          process_boxes fromPCL ToTransformStamped tf_buffer cfg now cloud_msg boxes (k + 1) s')"

definition ProcessDetection ::
  "(PointCloud2 \<Rightarrow> Point list) \<Rightarrow> (PoseStamped \<Rightarrow> string \<Rightarrow> string \<Rightarrow> 'ts) \<Rightarrow>
   (PoseStamped \<Rightarrow> string \<Rightarrow> tf2_exception + PoseStamped) \<Rightarrow> config \<Rightarrow> (nat \<Rightarrow> nat) \<Rightarrow>
   PointCloud2 \<Rightarrow> BoundingBox list \<Rightarrow> world \<Rightarrow>
   (tf2_exception \<times> world + world) option" where
  "ProcessDetection fromPCL ToTransformStamped tf_buffer cfg now cloud_msg bb_msg s =
     process_boxes fromPCL ToTransformStamped tf_buffer cfg now cloud_msg bb_msg 0 s"

subsection \<open>Notions used to state the properties of \<open>GetCentroid\<close>\<close>

text \<open>
  A point with an infinite coordinate (the test of the loop in \<open>GetCentroid\<close>), a point
  with three finite coordinates, the arithmetic mean of a list of such coordinate
  triples, and some sample points and settings.
\<close>

definition has_inf :: "Point \<Rightarrow> bool" where
  "has_inf p \<longleftrightarrow> isinf (p_x p) \<or> isinf (p_y p) \<or> isinf (p_z p)"

definition finite_point :: "real \<times> real \<times> real \<Rightarrow> Point" where
  "finite_point v = \<lparr>p_x = Finite (fst v), p_y = Finite (fst (snd v)), p_z = Finite (snd (snd v))\<rparr>"

definition mean3 :: "(real \<times> real \<times> real) list \<Rightarrow> real \<times> real \<times> real" where
  "mean3 vs =
     (sum_list (map fst vs) / real (length vs),
      sum_list (map (\<lambda>v. fst (snd v)) vs) / real (length vs),
      sum_list (map (\<lambda>v. snd (snd v)) vs) / real (length vs))"

definition point_nan :: Point where
  "point_nan = \<lparr>p_x = NaN, p_y = Finite 0, p_z = Finite 0\<rparr>"

definition point_one :: Point where
  "point_one = \<lparr>p_x = Finite 1, p_y = Finite 1, p_z = Finite 1\<rparr>"

definition point_inf :: Point where
  "point_inf = \<lparr>p_x = PInf, p_y = Finite 0, p_z = Finite 0\<rparr>"

definition config_example :: config where
  "config_example =
     \<lparr>robot_name = ''anymal_b'', camera_frame = ''anymal_b/base/camera_front'',
      object_frame = [], artifact_origin_frame = ''artifact_origin''\<rparr>"

text \<open>
  The \<open>float\<close> sum of a list of values, added from the left starting at zero, and the
  \<open>float\<close> mean of a list of points.  A value that is a \<open>float\<close>; a list of integers
  whose partial sums are \<open>float\<close>s; an integer whose multiples up to \<open>n\<close> are.  Some sample
  conversions of a cloud to points.
\<close>

definition fl_sum :: "fl list \<Rightarrow> fl" where
  "fl_sum xs = foldl fl_add (Finite 0) xs"

definition float_mean :: "Point list \<Rightarrow> Point" where
  "float_mean qs =
     (if qs = [] then \<lparr>p_x = Finite 0, p_y = Finite 0, p_z = Finite 0\<rparr>
      else \<lparr>p_x = fl_div (fl_sum (map p_x qs)) (length qs),
            p_y = fl_div (fl_sum (map p_y qs)) (length qs),
            p_z = fl_div (fl_sum (map p_z qs)) (length qs)\<rparr>)"

fun is_float :: "fl \<Rightarrow> bool" where
  "is_float (Finite v) = (round_float v = Finite v)"
| "is_float PInf = True"
| "is_float NInf = True"
| "is_float NaN = True"

definition exact_sum :: "real list \<Rightarrow> bool" where
  "exact_sum xs \<longleftrightarrow> list_all (\<lambda>x. x \<in> \<int>) xs \<and> sum_list (map abs xs) \<le> 2 ^ 24"

definition flt_max_twice :: "PointCloud2 \<Rightarrow> Point list" where
  "flt_max_twice c =
     [\<lparr>p_x = Finite ((2 ^ 24 - 1) * 2 ^ 104), p_y = Finite 0, p_z = Finite 0\<rparr>,
      \<lparr>p_x = Finite ((2 ^ 24 - 1) * 2 ^ 104), p_y = Finite 0, p_z = Finite 0\<rparr>]"

definition small_integer :: "nat \<Rightarrow> real \<Rightarrow> bool" where
  "small_integer n a \<longleftrightarrow> a \<in> \<int> \<and> real n * \<bar>a\<bar> \<le> 2 ^ 24"

definition three_points :: "PointCloud2 \<Rightarrow> Point list" where
  "three_points c = [point_one, point_inf, finite_point (3, 5, 7)]"

definition two_points :: "PointCloud2 \<Rightarrow> Point list" where
  "two_points c = [point_one, finite_point (3, 5, 7)]"

definition same_point_thrice :: "PointCloud2 \<Rightarrow> Point list" where
  "same_point_thrice c = replicate 3 (finite_point (3, 5, 7))"

definition half_point :: "PointCloud2 \<Rightarrow> Point list" where
  "half_point c = [point_inf, finite_point (1 / 2, 1, 3)]"


subsection \<open>Notions used to state the properties of the reporter\<close>

text \<open>
  The message that \<open>ReportArtifacts\<close> builds from the stored artifact, and sample values:
  a state with a pending artifact, a serializer that succeeds, one that fails and leaves
  the output string empty, and a parser that rejects its input.
\<close>

definition artifact_msg :: "Artifact \<Rightarrow> ArtifactMsg" where
  "artifact_msg a = \<lparr>msg_type = type a, msg_pose = location a\<rparr>"

definition world_pending :: world where
  "world_pending =
     \<lparr>artifact_to_report =
        \<lparr>type = TYPE_DRILL, location = \<lparr>p_x = Finite 5, p_y = Finite 5, p_z = Finite (1 / 2)\<rparr>\<rparr>,
      have_an_artifact_to_report = True, ros_log = [], sent = []\<rparr>"

definition serialize_ok :: "ArtifactMsg \<Rightarrow> bool \<times> string" where
  "serialize_ok m = (True, ''artifact'')"

definition serialize_fails :: "ArtifactMsg \<Rightarrow> bool \<times> string" where
  "serialize_fails m = (False, [])"

definition parse_fails :: "string \<Rightarrow> bool \<times> Point" where
  "parse_fails d = (False, \<lparr>p_x = Finite 0, p_y = Finite 0, p_z = Finite 0\<rparr>)"

subsection \<open>Notions used to state the properties of \<open>ProcessDetection\<close>\<close>

text \<open>
  The fixed vocabulary of labels and the table from a label to the artifact type and
  the text of the log line, as one reads them off the five \<open>if\<close> blocks; and sample
  values: boxes inside the 2 x 2 cloud, transforms that succeed, or fail for one time
  stamp only, conversions yielding one finite point, only infinite points, or a
  point with NaN and a finite point, a clock that reads \<open>k\<close> in iteration \<open>k\<close>, and
  states with no pending artifact and with a pending backpack.
\<close>

definition vocabulary :: "string list" where
  "vocabulary = [''Backpack'', ''Survivor'', ''Cell Phone'', ''Fire Extinguisher'', ''Drill'']"

definition classify :: "string \<Rightarrow> (ArtifactType \<times> string) option" where
  "classify label =
     (if label = ''Backpack'' then Some (TYPE_BACKPACK, ''Detected a backapack!'')
      else if label = ''Survivor'' then Some (TYPE_RESCUE_RANDY, ''Detected a survivor!'')
      else if label = ''Cell Phone'' then Some (TYPE_PHONE, ''Detected a cell phone!'')
      else if label = ''Fire Extinguisher''
        then Some (TYPE_EXTINGUISHER, ''Detected a fire extinguisher!'')
      else if label = ''Drill'' then Some (TYPE_DRILL, ''Detected a drill!'')
      else None)"

definition box_labelled :: "string \<Rightarrow> BoundingBox" where
  "box_labelled label = \<lparr>Class = label, xmin = 0, ymin = 0, xmax = 1, ymax = 0\<rparr>"

definition tf_identity :: "PoseStamped \<Rightarrow> string \<Rightarrow> tf2_exception + PoseStamped" where
  "tf_identity p target = Inr (p\<lparr>pose_header := (pose_header p)\<lparr>frame_id := target\<rparr>\<rparr>)"

definition tf_unavailable_at_1 :: "PoseStamped \<Rightarrow> string \<Rightarrow> tf2_exception + PoseStamped" where
  "tf_unavailable_at_1 p target =
     (if stamp (pose_header p) = 1 then Inl TransformException else tf_identity p target)"

definition no_tf_stamped :: "PoseStamped \<Rightarrow> string \<Rightarrow> string \<Rightarrow> unit" where
  "no_tf_stamped p parent child = ()"

definition frames_tf_stamped :: "PoseStamped \<Rightarrow> string \<Rightarrow> string \<Rightarrow> string \<times> string" where
  "frames_tf_stamped p parent child = (parent, child)"

definition one_finite_point :: "PointCloud2 \<Rightarrow> Point list" where
  "one_finite_point c = [point_one]"

definition only_infinite_points :: "PointCloud2 \<Rightarrow> Point list" where
  "only_infinite_points c = [point_inf, point_inf]"

definition nan_and_finite_point :: "PointCloud2 \<Rightarrow> Point list" where
  "nan_and_finite_point c = [point_nan, point_one]"

definition clock_k :: "nat \<Rightarrow> nat" where
  "clock_k k = k"

definition world_idle :: world where
  "world_idle =
     \<lparr>artifact_to_report =
        \<lparr>type = TYPE_BACKPACK, location = \<lparr>p_x = Finite 0, p_y = Finite 0, p_z = Finite 0\<rparr>\<rparr>,
      have_an_artifact_to_report = False, ros_log = [], sent = []\<rparr>"

definition world_backpack :: world where
  "world_backpack =
     \<lparr>artifact_to_report = \<lparr>type = TYPE_BACKPACK, location = point_one\<rparr>,
      have_an_artifact_to_report = True,
      ros_log = [INFO_detected ''Detected a backapack!'' ''artifact_origin'' point_one],
      sent = []\<rparr>"

section \<open>Properties\<close>

subsection \<open>The loops of \<open>CropPointCloud\<close>\<close>

declare copy_bytes.simps [simp del]

lemma copy_bytes_take:
  "i + n \<le> length src \<Longrightarrow> copy_bytes src i (i + n) acc = Inr (acc @ take n (drop i src))"
proof (induction n arbitrary: i acc)
  case 0
  then show ?case by (simp add: copy_bytes.simps)
next
  case (Suc n)
  from Suc.prems have lt: "i < length src" and le: "Suc i + n \<le> length src" by simp_all
  have "copy_bytes src i (i + Suc n) acc = copy_bytes src (Suc i) (Suc i + n) (acc @ [src ! i])"
    using lt by (subst copy_bytes.simps) simp
  also have "\<dots> = Inr ((acc @ [src ! i]) @ take n (drop (Suc i) src))"
    by (rule Suc.IH [OF le])
  also have "(acc @ [src ! i]) @ take n (drop (Suc i) src) = acc @ take (Suc n) (drop i src)"
    using lt by (simp add: Cons_nth_drop_Suc [symmetric])
  finally show ?case .
qed

lemma crop_cols_closed:
  assumes "c_max < 2 ^ 64 - 1"
    and "r * row_step pc + Suc c_max * point_step pc \<le> length (data pc)"
    and "length (data pc) < 2 ^ 64"
  shows "crop_cols pc r c c_max acc =
           Some (Inr (acc @ concat (map (\<lambda>c. point_bytes pc c r) [c..<Suc c_max])))"
  using assms
proof (induction "Suc c_max - c" arbitrary: c acc)
  case 0
  then have "\<not> c \<le> c_max" by simp
  then show ?case by (subst crop_cols.simps) simp
next
  case (Suc k)
  then have le: "c \<le> c_max" by simp
  let ?start = "r * row_step pc + c * point_step pc"
  have "c * point_step pc \<le> c_max * point_step pc"
    using le by (intro mult_le_mono1)
  moreover have "Suc c_max * point_step pc = c_max * point_step pc + point_step pc"
    by simp
  ultimately have in_buf: "?start + point_step pc \<le> length (data pc)"
    using Suc.prems(2) by linarith
  then have nowrap: "?start mod 2 ^ 64 = ?start" "(?start + point_step pc) mod 2 ^ 64 = ?start + point_step pc"
    using Suc.prems(3) by simp_all
  have ne: "(c + 1) mod 2 ^ 64 = Suc c" using le Suc.prems(1) by simp
  have k: "k = Suc c_max - Suc c" using Suc.hyps(2) by simp
  have "crop_cols pc r c c_max acc = crop_cols pc r (Suc c) c_max (acc @ point_bytes pc c r)"
    using le ne nowrap copy_bytes_take [OF in_buf, of acc]
    by (subst crop_cols.simps) (simp add: Let_def point_bytes_def)
  also have "\<dots> = Some (Inr ((acc @ point_bytes pc c r) @
      concat (map (\<lambda>c. point_bytes pc c r) [Suc c..<Suc c_max])))"
    by (rule Suc.hyps(1) [OF k Suc.prems])
  also have "(acc @ point_bytes pc c r) @ concat (map (\<lambda>c. point_bytes pc c r) [Suc c..<Suc c_max])
      = acc @ concat (map (\<lambda>c. point_bytes pc c r) [c..<Suc c_max])"
    using le by (simp add: upt_conv_Cons del: upt_Suc)
  finally show ?case .
qed

lemma crop_rows_closed:
  assumes "r_max < 2 ^ 64 - 1" and "c_max < 2 ^ 64 - 1"
    and "r_max * row_step pc + Suc c_max * point_step pc \<le> length (data pc)"
    and "length (data pc) < 2 ^ 64"
  shows "crop_rows pc r r_max c_min c_max acc =
           Some (Inr (acc @
             concat (map (\<lambda>r. concat (map (\<lambda>c. point_bytes pc c r) [c_min..<Suc c_max]))
               [r..<Suc r_max])))"
  using assms
proof (induction "Suc r_max - r" arbitrary: r acc)
  case 0
  then have "\<not> r \<le> r_max" by simp
  then show ?case by (subst crop_rows.simps) simp
next
  case (Suc k)
  then have le: "r \<le> r_max" by simp
  have "r * row_step pc \<le> r_max * row_step pc"
    using le by (intro mult_le_mono1)
  then have in_buf: "r * row_step pc + Suc c_max * point_step pc \<le> length (data pc)"
    using Suc.prems(3) by linarith
  have ne: "(r + 1) mod 2 ^ 64 = Suc r" using le Suc.prems(1) by simp
  have k: "k = Suc r_max - Suc r" using Suc.hyps(2) by simp
  let ?row = "concat (map (\<lambda>c. point_bytes pc c r) [c_min..<Suc c_max])"
  have "crop_rows pc r r_max c_min c_max acc = crop_rows pc (Suc r) r_max c_min c_max (acc @ ?row)"
    using le ne crop_cols_closed [OF Suc.prems(2) in_buf Suc.prems(4), of c_min acc]
    by (subst crop_rows.simps) simp
  also have "\<dots> = Some (Inr ((acc @ ?row) @
      concat (map (\<lambda>r. concat (map (\<lambda>c. point_bytes pc c r) [c_min..<Suc c_max]))
        [Suc r..<Suc r_max])))"
    by (rule Suc.hyps(1) [OF k Suc.prems])
  also have "(acc @ ?row) @ concat (map (\<lambda>r. concat (map (\<lambda>c. point_bytes pc c r) [c_min..<Suc c_max])) [Suc r..<Suc r_max])
     = acc @ concat (map (\<lambda>r. concat (map (\<lambda>c. point_bytes pc c r) [c_min..<Suc c_max])) [r..<Suc r_max])"
    using le by (simp add: upt_conv_Cons del: upt_Suc)
  finally show ?case .
qed

lemma to_size_t_nat: "0 \<le> v \<Longrightarrow> v < 2 ^ 64 \<Longrightarrow> to_size_t v = nat v"
  by (simp add: to_size_t_def)

lemma to_uint32_nat: "0 \<le> v \<Longrightarrow> v < 2 ^ 32 \<Longrightarrow> to_uint32 v = nat v"
  by (simp add: to_uint32_def)

lemma CropPointCloud_closed:
  assumes "0 \<le> xmin bb" "xmin bb \<le> xmax bb" "xmax bb < 2 ^ 63"
    and "0 \<le> ymin bb" "ymin bb \<le> ymax bb" "ymax bb < 2 ^ 63"
    and "nat (ymax bb) * row_step pc + Suc (nat (xmax bb)) * point_step pc \<le> length (data pc)"
    and "length (data pc) < 2 ^ 64"
  shows "CropPointCloud pc bb =
     Inr \<lparr>header = header pc,
          height = to_uint32 (ymax bb - ymin bb + 1),
          width = to_uint32 (xmax bb - xmin bb + 1),
          pc_fields = pc_fields pc,
          is_bigendian = is_bigendian pc,
          point_step = point_step pc,
          row_step = (to_uint32 (xmax bb - xmin bb + 1) * point_step pc) mod 2 ^ 32,
          data = region_bytes pc (nat (ymin bb)) (nat (ymax bb)) (nat (xmin bb)) (nat (xmax bb)),
          is_dense = is_dense pc\<rparr>"
proof -
  have conv: "to_size_t (xmax bb) = nat (xmax bb)" "to_size_t (ymax bb) = nat (ymax bb)"
    "to_size_t (xmin bb) = nat (xmin bb)" "to_size_t (ymin bb) = nat (ymin bb)"
    using assms by (simp_all add: to_size_t_nat)
  have lim: "nat (xmax bb) < 2 ^ 64 - 1" "nat (ymax bb) < 2 ^ 64 - 1"
    using assms by simp_all
  show ?thesis
    using crop_rows_closed [OF lim(2) lim(1) assms(7) assms(8), of "nat (ymin bb)" "nat (xmin bb)" "[]"]
    by (simp add: CropPointCloud_def Let_def conv region_bytes_def)
qed

subsection \<open>Lists of equally long chunks\<close>

lemma length_concat_chunks:
  "(\<And>xs. xs \<in> set xss \<Longrightarrow> length xs = n) \<Longrightarrow> length (concat xss) = length xss * n"
  by (induction xss) simp_all

lemma chunk_of_concat:
  "(\<And>xs. xs \<in> set xss \<Longrightarrow> length xs = n) \<Longrightarrow> k < length xss \<Longrightarrow>
   take n (drop (k * n) (concat xss)) = xss ! k"
proof (induction xss arbitrary: k)
  case Nil
  then show ?case by simp
next
  case (Cons xs xss)
  have len: "length xs = n" using Cons.prems(1) by simp
  show ?case
  proof (cases k)
    case 0
    then show ?thesis using len by simp
  next
    case (Suc k')
    then have "take n (drop (k' * n) (concat xss)) = xss ! k'"
      using Cons.prems by (intro Cons.IH) simp_all
    then show ?thesis using Suc len by (simp add: add.commute)
  qed
qed

lemma concat_rows:
  "concat (map (\<lambda>r. concat (map (f r) cols)) rows) =
   concat (concat (map (\<lambda>r. map (f r) cols) rows))"
  by (induction rows) simp_all

lemma nth_grid:
  "j < length rows \<Longrightarrow> i < length cols \<Longrightarrow>
   concat (map (\<lambda>r. map (f r) cols) rows) ! (j * length cols + i) = f (rows ! j) (cols ! i)"
proof (induction rows arbitrary: j)
  case Nil
  then show ?case by simp
next
  case (Cons r rows)
  show ?case
  proof (cases j)
    case 0
    then show ?thesis using Cons.prems by (simp add: nth_append)
  next
    case (Suc j')
    then have "concat (map (\<lambda>r. map (f r) cols) rows) ! (j' * length cols + i) = f (rows ! j') (cols ! i)"
      using Cons.prems by (intro Cons.IH) simp_all
    then show ?thesis using Suc by (simp add: nth_append)
  qed
qed

lemma length_grid:
  "length (concat (map (\<lambda>r. map (f r) cols) rows)) = length rows * length cols"
  by (induction rows) simp_all

lemma length_point_bytes:
  "r * row_step pc + Suc c * point_step pc \<le> length (data pc) \<Longrightarrow>
   length (point_bytes pc c r) = point_step pc"
  by (simp add: point_bytes_def)

lemma region_bytes_concat:
  "region_bytes pc r_min r_max c_min c_max = concat (region_points pc r_min r_max c_min c_max)"
  unfolding region_bytes_def region_points_def by (rule concat_rows)

lemma length_region_points:
  "length (region_points pc r_min r_max c_min c_max) = (Suc r_max - r_min) * (Suc c_max - c_min)"
  unfolding region_points_def by (simp add: length_grid del: upt_Suc)

lemma region_points_length:
  assumes buf: "r_max * row_step pc + Suc c_max * point_step pc \<le> length (data pc)"
    and xs: "xs \<in> set (region_points pc r_min r_max c_min c_max)"
  shows "length xs = point_step pc"
proof -
  from xs obtain r c where rc: "r \<le> r_max" "c \<le> c_max" and xs: "xs = point_bytes pc c r"
    unfolding region_points_def by (auto simp: less_Suc_eq_le simp del: upt_Suc)
  have "r * row_step pc \<le> r_max * row_step pc" "Suc c * point_step pc \<le> Suc c_max * point_step pc"
    using rc by (simp_all only: mult_le_mono1 Suc_le_mono)
  then have "r * row_step pc + Suc c * point_step pc \<le> length (data pc)"
    using buf by linarith
  then show "length xs = point_step pc"
    unfolding xs by (rule length_point_bytes)
qed

lemma length_region_bytes:
  assumes "r_max * row_step pc + Suc c_max * point_step pc \<le> length (data pc)"
  shows "length (region_bytes pc r_min r_max c_min c_max) =
           (Suc r_max - r_min) * (Suc c_max - c_min) * point_step pc"
  using region_points_length [OF assms]
  by (simp add: region_bytes_concat length_region_points
        length_concat_chunks [where n = "point_step pc"])

lemma region_bytes_point:
  assumes buf: "r_max * row_step pc + Suc c_max * point_step pc \<le> length (data pc)"
    and j: "j < Suc r_max - r_min" and i: "i < Suc c_max - c_min"
  shows "take (point_step pc)
           (drop ((j * (Suc c_max - c_min) + i) * point_step pc)
              (region_bytes pc r_min r_max c_min c_max)) =
         point_bytes pc (c_min + i) (r_min + j)"
proof -
  let ?cols = "[c_min..<Suc c_max]" and ?rows = "[r_min..<Suc r_max]"
  let ?pts = "region_points pc r_min r_max c_min c_max"
  have lc: "length ?cols = Suc c_max - c_min" and lr: "length ?rows = Suc r_max - r_min"
    by (simp_all del: upt_Suc)
  have "j * (Suc c_max - c_min) + i < Suc j * (Suc c_max - c_min)"
    using i by simp
  also have "\<dots> \<le> (Suc r_max - r_min) * (Suc c_max - c_min)"
    using j by (intro mult_le_mono1) simp
  finally have k: "j * (Suc c_max - c_min) + i < length ?pts"
    by (simp only: length_region_points)
  have "take (point_step pc)
           (drop ((j * (Suc c_max - c_min) + i) * point_step pc) (concat ?pts)) =
        ?pts ! (j * (Suc c_max - c_min) + i)"
    using region_points_length [OF buf] k by (rule chunk_of_concat)
  also have "\<dots> = point_bytes pc (?cols ! i) (?rows ! j)"
    using nth_grid [of j ?rows i ?cols "\<lambda>r c. point_bytes pc c r"] i j
    by (simp only: lc lr region_points_def)
  also have "?cols ! i = c_min + i" using i by (simp del: upt_Suc)
  also have "?rows ! j = r_min + j" using j by (simp del: upt_Suc)
  finally show ?thesis by (simp only: region_bytes_concat)
qed

lemma in_range_reads_in_buffer:
  assumes "StructuredPointCloud pc" and "in_range pc bb"
  shows "reads_in_buffer pc bb"
proof -
  from assms(2) have x: "Suc (nat (xmax bb)) \<le> width pc" and y: "Suc (nat (ymax bb)) \<le> height pc"
    unfolding in_range_def by linarith+
  have "Suc (nat (xmax bb)) * point_step pc \<le> width pc * point_step pc"
    using x by (rule mult_le_mono1)
  moreover have "Suc (nat (ymax bb)) * row_step pc \<le> height pc * row_step pc"
    using y by (rule mult_le_mono1)
  moreover have "Suc (nat (ymax bb)) * row_step pc = nat (ymax bb) * row_step pc + row_step pc"
    by simp
  ultimately have "nat (ymax bb) * row_step pc + Suc (nat (xmax bb)) * point_step pc \<le> length (data pc)"
    using assms(1) unfolding StructuredPointCloud_def by linarith
  moreover have "xmax bb < 2 ^ 63" "ymax bb < 2 ^ 63"
    using assms by (simp_all add: StructuredPointCloud_def in_range_def)
  ultimately show ?thesis
    using assms by (simp add: reads_in_buffer_def in_range_def StructuredPointCloud_def)
qed

lemma CropPointCloud_reads_in_buffer:
  assumes "reads_in_buffer pc bb"
  shows "CropPointCloud pc bb =
     Inr \<lparr>header = header pc,
          height = to_uint32 (ymax bb - ymin bb + 1),
          width = to_uint32 (xmax bb - xmin bb + 1),
          pc_fields = pc_fields pc,
          is_bigendian = is_bigendian pc,
          point_step = point_step pc,
          row_step = (to_uint32 (xmax bb - xmin bb + 1) * point_step pc) mod 2 ^ 32,
          data = region_bytes pc (nat (ymin bb)) (nat (ymax bb)) (nat (xmin bb)) (nat (xmax bb)),
          is_dense = is_dense pc\<rparr>"
  using assms by (intro CropPointCloud_closed) (simp_all add: reads_in_buffer_def)

subsection \<open>Cropping a box that lies inside the cloud\<close>

text \<open>
  Claim C1.  For a well-formed structured cloud and a box with
  \<open>0 \<le> xmin \<le> xmax < width\<close> and \<open>0 \<le> ymin \<le> ymax < height\<close>, \<open>CropPointCloud\<close>
  returns a cloud of width \<open>xmax - xmin + 1\<close> and height \<open>ymax - ymin + 1\<close> with the
  point step and the field schema of the original.  Its buffer is the concatenation, row
  after row and column after column, of the \<open>point_step\<close> bytes of the points at the
  pixels (c, r) of the box, so it holds \<open>width * height * point_step\<close> bytes, and the
  point at pixel (i, j) of the result is byte for byte the point at pixel
  \<open>(xmin + i, ymin + j)\<close> of the original.
\<close>

theorem CropPointCloud_in_range:
  assumes wf: "StructuredPointCloud pc" and box: "in_range pc bb"
  shows "\<exists>m. CropPointCloud pc bb = Inr m \<and>
           width m = nat (xmax bb - xmin bb + 1) \<and>
           height m = nat (ymax bb - ymin bb + 1) \<and>
           point_step m = point_step pc \<and> pc_fields m = pc_fields pc \<and>
           is_bigendian m = is_bigendian pc \<and> is_dense m = is_dense pc \<and>
           header m = header pc \<and> row_step m = width m * point_step m \<and>
           length (data m) = width m * height m * point_step m \<and>
           data m = concat (region_points pc (nat (ymin bb)) (nat (ymax bb))
                                          (nat (xmin bb)) (nat (xmax bb))) \<and>
           (\<forall>j < height m. \<forall>i < width m.
              point_bytes m i j = point_bytes pc (nat (xmin bb) + i) (nat (ymin bb) + j))"
proof -
  let ?x0 = "nat (xmin bb)" and ?x1 = "nat (xmax bb)"
  let ?y0 = "nat (ymin bb)" and ?y1 = "nat (ymax bb)"
  let ?W = "nat (xmax bb - xmin bb + 1)" and ?H = "nat (ymax bb - ymin bb + 1)"
  let ?ps = "point_step pc"
  let ?m = "\<lparr>header = header pc, height = ?H, width = ?W, pc_fields = pc_fields pc,
            is_bigendian = is_bigendian pc, point_step = ?ps, row_step = ?W * ?ps,
            data = region_bytes pc ?y0 ?y1 ?x0 ?x1, is_dense = is_dense pc\<rparr>"
  have rib: "reads_in_buffer pc bb"
    using wf box by (rule in_range_reads_in_buffer)
  then have buf: "?y1 * row_step pc + Suc ?x1 * ?ps \<le> length (data pc)"
    by (simp add: reads_in_buffer_def)
  have W: "?W = Suc ?x1 - ?x0" and H: "?H = Suc ?y1 - ?y0"
    using box unfolding in_range_def by linarith+
  have "?W \<le> width pc" using box unfolding in_range_def by linarith
  then have "?W * ?ps \<le> width pc * ?ps" by (rule mult_le_mono1)
  moreover have "width pc * ?ps \<le> row_step pc" "row_step pc < 2 ^ 32"
    using wf by (simp_all add: StructuredPointCloud_def)
  ultimately have small: "?W * ?ps < 2 ^ 32" by linarith
  have u32: "to_uint32 (xmax bb - xmin bb + 1) = ?W" "to_uint32 (ymax bb - ymin bb + 1) = ?H"
    using wf box by (simp_all add: to_uint32_nat StructuredPointCloud_def in_range_def)
  have crop: "CropPointCloud pc bb = Inr ?m"
    using small by (simp add: CropPointCloud_reads_in_buffer [OF rib] u32)
  have len: "length (data ?m) = width ?m * height ?m * point_step ?m"
    by (simp add: length_region_bytes [OF buf] W H)
  have pt: "point_bytes ?m i j = point_bytes pc (?x0 + i) (?y0 + j)"
    if "j < ?H" "i < ?W" for i j
  proof -
    have "point_bytes ?m i j = take ?ps (drop ((j * ?W + i) * ?ps) (region_bytes pc ?y0 ?y1 ?x0 ?x1))"
      by (simp add: point_bytes_def algebra_simps)
    also have "\<dots> = point_bytes pc (?x0 + i) (?y0 + j)"
      using region_bytes_point [OF buf, of j ?y0 i ?x0] that by (simp only: W H)
    finally show ?thesis .
  qed
  show ?thesis
    using crop len pt by (intro exI [of _ ?m]) (simp add: region_bytes_concat)
qed

theorem CropPointCloud_in_range_witness:
  "StructuredPointCloud cloud_2x2 \<and> in_range cloud_2x2 box_right_column \<and>
   (\<exists>m. CropPointCloud cloud_2x2 box_right_column = Inr m \<and> width m = 1 \<and> height m = 2 \<and>
        data m = [3, 4, 7, 8] \<and> point_bytes m 0 1 = [7, 8])"
proof -
  have wf: "StructuredPointCloud cloud_2x2"
    by (simp add: StructuredPointCloud_def cloud_2x2_def)
  have box: "in_range cloud_2x2 box_right_column"
    by (simp add: in_range_def cloud_2x2_def box_right_column_def)
  from CropPointCloud_in_range [OF wf box] obtain m where
    m: "CropPointCloud cloud_2x2 box_right_column = Inr m"
      "width m = nat (xmax box_right_column - xmin box_right_column + 1)"
      "height m = nat (ymax box_right_column - ymin box_right_column + 1)"
      "data m = concat (region_points cloud_2x2 (nat (ymin box_right_column))
          (nat (ymax box_right_column)) (nat (xmin box_right_column)) (nat (xmax box_right_column)))"
      "\<forall>j < height m. \<forall>i < width m.
          point_bytes m i j = point_bytes cloud_2x2 (nat (xmin box_right_column) + i)
            (nat (ymin box_right_column) + j)"
    by blast
  have w: "width m = 1" and h: "height m = 2"
    using m(2,3) by (simp_all add: box_right_column_def)
  have d: "data m = [3, 4, 7, 8]"
    using m(4) by (simp add: box_right_column_def cloud_2x2_def region_points_def point_bytes_def upt_rec)
  have "point_bytes m 0 1 = point_bytes cloud_2x2 (nat (xmin box_right_column) + 0)
            (nat (ymin box_right_column) + 1)"
    using m(5) w h by simp
  then have p: "point_bytes m 0 1 = [7, 8]"
    by (simp add: box_right_column_def cloud_2x2_def point_bytes_def)
  show ?thesis using wf box m(1) w h d p by blast
qed

subsection \<open>Rounding to \<open>float\<close>\<close>

lemma round_half_even_int [simp]: "round_half_even (of_int m) = m"
  by (simp add: round_half_even_def)

lemma round_half_even_0 [simp]: "round_half_even 0 = 0"
  using round_half_even_int [of 0] by simp

lemma float_quantum_pos [simp]: "0 < float_quantum x"
  by (simp add: float_quantum_def)

lemma round_float_0 [simp]: "round_float 0 = Finite 0"
  by (simp add: round_float_def Let_def)

lemma floor_log2_eq:
  assumes "2 powi k \<le> x" and "x < 2 powi (k + 1)"
  shows "\<lfloor>log 2 x\<rfloor> = k"
proof -
  have pos: "0 < x"
    using assms(1) by (smt (verit) zero_less_power_int)
  have "2 powr (of_int k) \<le> x" "x < 2 powr (of_int k + 1)"
    using assms powr_real_of_int' [of 2 k] powr_real_of_int' [of 2 "k + 1"] by simp_all
  then show ?thesis
    using pos by (simp add: floor_log_eq_powr_iff)
qed

lemma floor_log2_less:
  assumes "0 < x" and "x < 2 powi k"
  shows "\<lfloor>log 2 x\<rfloor> < k"
proof -
  have "x < 2 powr (of_int k)"
    using assms powr_real_of_int' [of 2 k] by simp
  then have "log 2 x < of_int k"
    using assms(1) by (simp add: log_less_iff)
  then show ?thesis by (simp add: floor_less_iff)
qed

lemma float_quantum_eq:
  "2 powi k \<le> \<bar>x\<bar> \<Longrightarrow> \<bar>x\<bar> < 2 powi (k + 1) \<Longrightarrow>
   float_quantum x = 2 powi (max k (- 126) - 23)"
  by (simp add: float_quantum_def floor_log2_eq)

text \<open>Rounding a number whose binary exponent is known.\<close>

lemma round_float_exponent:
  assumes "2 powi k \<le> \<bar>x\<bar>" and "\<bar>x\<bar> < 2 powi (k + 1)"
  shows "round_float x =
     (let v = of_int (round_half_even (x / 2 powi (max k (- 126) - 23))) *
              2 powi (max k (- 126) - 23)
      in if 2 ^ 128 \<le> v then PInf else if v \<le> - (2 ^ 128) then NInf else Finite v)"
  by (simp only: round_float_def float_quantum_eq [OF assms])

text \<open>Every \<open>float\<close> is a fixed point of the rounding.\<close>

lemma round_float_representable:
  assumes m: "\<bar>m\<bar> < 2 ^ 24" and k: "- 149 \<le> k" "k \<le> 104"
  shows "round_float (of_int m * 2 powi k) = Finite (of_int m * 2 powi k)"
proof (cases "m = 0")
  case True
  then show ?thesis by simp
next
  case False
  let ?x = "of_int m * 2 powi k :: real"
  let ?e = "\<lfloor>log 2 \<bar>?x\<bar>\<rfloor>"
  let ?qe = "max ?e (- 126) - 23"
  have absx: "\<bar>?x\<bar> = of_int \<bar>m\<bar> * 2 powi k"
    by (simp add: abs_mult)
  have "real_of_int \<bar>m\<bar> < 2 ^ 24"
    using m by (metis of_int_less_numeral_power_cancel_iff)
  then have "\<bar>?x\<bar> < 2 ^ 24 * 2 powi k"
    unfolding absx by (intro mult_strict_right_mono) simp_all
  also have "\<dots> = 2 powi (24 + k)"
    by (simp add: power_int_add)
  finally have lt: "\<bar>?x\<bar> < 2 powi (24 + k)" .
  have "0 < \<bar>?x\<bar>" using False by simp
  then have "?e < 24 + k" using lt by (rule floor_log2_less)
  then have qe: "?qe \<le> k" using k by simp
  define d where "d = k - ?qe"
  have d: "0 \<le> d" using qe by (simp add: d_def)
  have "?x / float_quantum ?x = of_int m * (2 powi k / 2 powi ?qe)"
    by (simp add: float_quantum_def)
  also have "2 powi k / 2 powi ?qe = (2 powi d :: real)"
    by (simp add: d_def power_int_diff)
  also have "(2 powi d :: real) = of_int (2 ^ nat d)"
    using d by (simp add: power_int_def)
  finally have q: "?x / float_quantum ?x = of_int (m * 2 ^ nat d)"
    by simp
  then have "round_half_even (?x / float_quantum ?x) = m * 2 ^ nat d"
    by (simp only: round_half_even_int)
  then have "of_int (round_half_even (?x / float_quantum ?x)) = ?x / float_quantum ?x"
    using q by (simp only:)
  moreover have "float_quantum ?x \<noteq> 0"
    using float_quantum_pos [of ?x] by linarith
  ultimately have v: "of_int (round_half_even (?x / float_quantum ?x)) * float_quantum ?x = ?x"
    by simp
  have "2 powi (24 + k) \<le> (2 powi 128 :: real)"
    using k by (intro power_int_increasing) simp_all
  then have "\<bar>?x\<bar> < 2 ^ 128" using lt by simp
  then have "\<not> 2 ^ 128 \<le> ?x" "\<not> ?x \<le> - (2 ^ 128)" by linarith+
  then show ?thesis
    by (simp only: round_float_def Let_def v if_False)
qed

lemma round_float_integer:
  assumes "x \<in> \<int>" and "\<bar>x\<bar> \<le> 2 ^ 24"
  shows "round_float x = Finite x"
proof -
  from assms(1) obtain m where x: "x = of_int m" by (auto elim: Ints_cases)
  have m: "\<bar>m\<bar> \<le> 2 ^ 24"
    using assms(2) unfolding x by (metis of_int_abs of_int_le_numeral_power_cancel_iff)
  show ?thesis
  proof (cases "\<bar>m\<bar> = 2 ^ 24")
    case True
    then have "m = 2 ^ 24 \<or> m = - (2 ^ 24)" by linarith
    then have "x = of_int 1 * 2 powi 24 \<or> x = of_int (- 1) * 2 powi 24"
      unfolding x by auto
    then show ?thesis
      using round_float_representable [of 1 24] round_float_representable [of "- 1" 24]
      by auto
  next
    case False
    then have "\<bar>m\<bar> < 2 ^ 24" using m by linarith
    then show ?thesis
      using round_float_representable [of m 0] by (simp add: x)
  qed
qed

lemma round_float_nat:
  assumes "n \<le> 2 ^ 24"
  shows "round_float (real n) = Finite (real n)"
proof -
  have "real n \<le> real (2 ^ 24)"
    using assms by (simp only: of_nat_le_iff)
  then have "\<bar>real n\<bar> \<le> 2 ^ 24" by simp
  then show ?thesis
    by (intro round_float_integer) simp_all
qed

lemma fl_div_NaN [simp]: "fl_div NaN n = NaN"
  by (simp add: fl_div_def split: fl.splits)

lemma fl_div_exact:
  assumes "0 < n" and "n \<le> 2 ^ 24"
  shows "fl_div (Finite v) n = round_float (v / real n)"
  using assms by (simp add: fl_div_def round_float_nat)

lemma fl_div_1:
  "is_float a \<Longrightarrow> fl_div a (Suc 0) = a"
  using round_float_nat [of 1] by (cases a) (simp_all add: fl_div_def)

lemma fl_add_0_left:
  "is_float a \<Longrightarrow> fl_add (Finite 0) a = a"
  by (cases a) simp_all

lemma fl_add_NaN_right [simp]: "fl_add a NaN = NaN"
  by (cases a) simp_all

lemma foldl_fl_add_NaN [simp]: "foldl fl_add NaN xs = NaN"
  by (induction xs) simp_all

lemma foldl_fl_add_integers:
  assumes "a \<in> \<int>" and "list_all (\<lambda>x. x \<in> \<int>) xs" and "\<bar>a\<bar> + sum_list (map abs xs) \<le> 2 ^ 24"
  shows "foldl fl_add (Finite a) (map Finite xs) = Finite (a + sum_list xs)"
  using assms
proof (induction xs arbitrary: a)
  case Nil
  then show ?case by simp
next
  case (Cons x xs)
  have pos: "0 \<le> sum_list (map abs xs)"
    by (rule sum_list_nonneg) auto
  have int: "a + x \<in> \<int>"
    using Cons.prems by simp
  have "\<bar>a + x\<bar> \<le> \<bar>a\<bar> + \<bar>x\<bar>" by (rule abs_triangle_ineq)
  then have small: "\<bar>a + x\<bar> + sum_list (map abs xs) \<le> 2 ^ 24"
    using Cons.prems(3) by simp
  then have "\<bar>a + x\<bar> \<le> 2 ^ 24" using pos by linarith
  then have "fl_add (Finite a) (Finite x) = Finite (a + x)"
    using int by (simp add: round_float_integer)
  moreover have "foldl fl_add (Finite (a + x)) (map Finite xs) = Finite (a + x + sum_list xs)"
    using int Cons.prems(2) small by (intro Cons.IH) simp_all
  ultimately show ?case by (simp add: add.assoc)
qed

lemma fl_sum_integers:
  "exact_sum xs \<Longrightarrow> fl_sum (map Finite xs) = Finite (sum_list xs)"
  using foldl_fl_add_integers [of 0 xs] by (simp add: fl_sum_def exact_sum_def)

subsection \<open>The accumulation loop of \<open>GetCentroid\<close>\<close>

lemma accumulate_filter:
  "accumulate c ps = accumulate c (filter (\<lambda>p. \<not> has_inf p) ps)"
  by (induction ps arbitrary: c) (simp_all add: has_inf_def)

lemma accumulate_append:
  "accumulate c (ps @ qs) = accumulate (accumulate c ps) qs"
  by (induction ps arbitrary: c) simp_all

lemma has_inf_finite_point [simp]: "\<not> has_inf (finite_point v)"
  by (simp add: has_inf_def finite_point_def)

text \<open>On points that pass the filter the loop adds up each coordinate and counts.\<close>

lemma accumulate_sums:
  assumes "list_all (\<lambda>p. \<not> has_inf p) qs"
  shows "accumulate c qs =
     \<lparr>xyz = \<lparr>p_x = foldl fl_add (p_x (xyz c)) (map p_x qs),
              p_y = foldl fl_add (p_y (xyz c)) (map p_y qs),
              p_z = foldl fl_add (p_z (xyz c)) (map p_z qs)\<rparr>,
      num_points = num_points c + length qs\<rparr>"
  using assms
proof (induction qs arbitrary: c)
  case Nil
  then show ?case by simp
next
  case (Cons q qs)
  then have "\<not> (isinf (p_x q) \<or> isinf (p_y q) \<or> isinf (p_z q))" and "list_all (\<lambda>p. \<not> has_inf p) qs"
    by (simp_all add: has_inf_def)
  then show ?case
    by (simp add: Cons.IH CentroidPoint_add_def)
qed

lemma position_GetCentroid:
  "position (GetCentroid fromPCL cfg t pc) =
     CentroidPoint_get (accumulate CentroidPoint_init (fromPCL pc)) PointXYZ_init"
  by (simp add: GetCentroid_def Let_def)

lemma centroid_float_mean:
  "position (GetCentroid fromPCL cfg t pc) =
     float_mean (filter (\<lambda>p. \<not> has_inf p) (fromPCL pc))"
proof -
  let ?qs = "filter (\<lambda>p. \<not> has_inf p) (fromPCL pc)"
  have "list_all (\<lambda>p. \<not> has_inf p) ?qs"
    by (simp add: list_all_iff)
  then have "accumulate CentroidPoint_init ?qs =
     \<lparr>xyz = \<lparr>p_x = fl_sum (map p_x ?qs), p_y = fl_sum (map p_y ?qs), p_z = fl_sum (map p_z ?qs)\<rparr>,
      num_points = length ?qs\<rparr>"
    by (simp add: accumulate_sums CentroidPoint_init_def fl_sum_def)
  then have "accumulate CentroidPoint_init (fromPCL pc) =
     \<lparr>xyz = \<lparr>p_x = fl_sum (map p_x ?qs), p_y = fl_sum (map p_y ?qs), p_z = fl_sum (map p_z ?qs)\<rparr>,
      num_points = length ?qs\<rparr>"
    by (subst accumulate_filter)
  then show ?thesis
    by (simp add: position_GetCentroid CentroidPoint_get_def PointXYZ_init_def float_mean_def)
qed

lemma centroid_empty:
  assumes "filter (\<lambda>p. \<not> has_inf p) (fromPCL pc) = []"
  shows "position (GetCentroid fromPCL cfg t pc) = finite_point (0, 0, 0)"
  by (simp add: centroid_float_mean assms float_mean_def finite_point_def)

lemma centroid_filter:
  "filter (\<lambda>p. \<not> has_inf p) (fromPCL pc) = filter (\<lambda>p. \<not> has_inf p) (fromPCL' pc) \<Longrightarrow>
   position (GetCentroid fromPCL cfg t pc) = position (GetCentroid fromPCL' cfg t pc)"
  by (simp only: centroid_float_mean)

lemma fl_sum_NaN:
  "NaN \<in> set xs \<Longrightarrow> fl_sum xs = NaN"
proof -
  assume "NaN \<in> set xs"
  then obtain ys zs where "xs = ys @ NaN # zs"
    by (auto simp: in_set_conv_decomp)
  then show ?thesis by (simp add: fl_sum_def)
qed

lemma centroid_NaN:
  assumes "p \<in> set (fromPCL pc)" and "\<not> has_inf p"
  shows "(p_x p = NaN \<longrightarrow> p_x (position (GetCentroid fromPCL cfg t pc)) = NaN) \<and>
         (p_y p = NaN \<longrightarrow> p_y (position (GetCentroid fromPCL cfg t pc)) = NaN) \<and>
         (p_z p = NaN \<longrightarrow> p_z (position (GetCentroid fromPCL cfg t pc)) = NaN)"
proof -
  let ?qs = "filter (\<lambda>p. \<not> has_inf p) (fromPCL pc)"
  have p: "p \<in> set ?qs" using assms by simp
  then have ne: "?qs \<noteq> []" by (metis empty_iff list.set(1))
  have "p_x p = NaN \<longrightarrow> NaN \<in> set (map p_x ?qs)" "p_y p = NaN \<longrightarrow> NaN \<in> set (map p_y ?qs)"
    "p_z p = NaN \<longrightarrow> NaN \<in> set (map p_z ?qs)"
    using p by (metis image_eqI list.set_map)+
  then show ?thesis
    using ne by (auto simp: centroid_float_mean float_mean_def fl_sum_NaN)
qed

lemma mean3_replicate: "0 < n \<Longrightarrow> mean3 (replicate n v) = v"
  by (cases v) (simp add: mean3_def sum_list_replicate)

lemma centroid_exact_sums:
  assumes f: "filter (\<lambda>p. \<not> has_inf p) (fromPCL pc) = map finite_point vs"
    and ne: "vs \<noteq> []" and len: "length vs \<le> 2 ^ 24"
    and x: "exact_sum (map fst vs)" and y: "exact_sum (map (\<lambda>v. fst (snd v)) vs)"
    and z: "exact_sum (map (\<lambda>v. snd (snd v)) vs)"
  shows "position (GetCentroid fromPCL cfg t pc) =
     \<lparr>p_x = round_float (fst (mean3 vs)),
      p_y = round_float (fst (snd (mean3 vs))),
      p_z = round_float (snd (snd (mean3 vs)))\<rparr>"
proof -
  have n: "0 < length vs" using ne by simp
  have mx: "map p_x (map finite_point vs) = map Finite (map fst vs)"
    and my: "map p_y (map finite_point vs) = map Finite (map (\<lambda>v. fst (snd v)) vs)"
    and mz: "map p_z (map finite_point vs) = map Finite (map (\<lambda>v. snd (snd v)) vs)"
    by (simp_all add: finite_point_def)
  show ?thesis
    using ne
    by (simp add: centroid_float_mean f float_mean_def mean3_def
          mx my mz fl_sum_integers [OF x] fl_sum_integers [OF y] fl_sum_integers [OF z]
          fl_div_exact [OF n len] del: map_map)
qed

lemma centroid_single_point:
  assumes "filter (\<lambda>p. \<not> has_inf p) (fromPCL pc) = [p]"
    and "is_float (p_x p)" "is_float (p_y p)" "is_float (p_z p)"
  shows "position (GetCentroid fromPCL cfg t pc) = p"
  using assms
  by (simp add: centroid_float_mean float_mean_def fl_sum_def fl_add_0_left fl_div_1)

lemma exact_sum_replicate:
  "small_integer n a \<Longrightarrow> exact_sum (replicate n a)"
  by (simp add: exact_sum_def small_integer_def list_all_iff sum_list_replicate)

lemma round_float_small_integer:
  assumes "small_integer n a" and "0 < n"
  shows "round_float a = Finite a"
proof -
  have "1 * \<bar>a\<bar> \<le> real n * \<bar>a\<bar>"
    using assms(2) by (intro mult_right_mono) simp_all
  then have "\<bar>a\<bar> \<le> 2 ^ 24"
    using assms(1) by (simp add: small_integer_def)
  then show ?thesis
    using assms(1) by (intro round_float_integer) (simp_all add: small_integer_def)
qed

lemma centroid_identical_points:
  assumes ps: "fromPCL pc = replicate n (finite_point v)" and n: "0 < n" "n \<le> 2 ^ 24"
    and x: "small_integer n (fst v)" and y: "small_integer n (fst (snd v))"
    and z: "small_integer n (snd (snd v))"
  shows "position (GetCentroid fromPCL cfg t pc) = finite_point v"
proof -
  have f: "filter (\<lambda>p. \<not> has_inf p) (fromPCL pc) = map finite_point (replicate n v)"
    by (simp add: ps)
  have "position (GetCentroid fromPCL cfg t pc) =
     \<lparr>p_x = round_float (fst (mean3 (replicate n v))),
      p_y = round_float (fst (snd (mean3 (replicate n v)))),
      p_z = round_float (snd (snd (mean3 (replicate n v))))\<rparr>"
    using f n x y z by (intro centroid_exact_sums) (simp_all add: exact_sum_replicate)
  then show ?thesis
    using n(1) round_float_small_integer [OF x n(1)] round_float_small_integer [OF y n(1)]
      round_float_small_integer [OF z n(1)]
    by (simp add: mean3_replicate finite_point_def)
qed

subsection \<open>The centroid\<close>

text \<open>
  Claim C2, as the code has it.  \<open>GetCentroid\<close> tests \<open>isinf\<close> only, and it computes in
  \<open>float\<close>.  Its position is the \<open>float\<close> mean of the points none of whose coordinates is
  infinite: in each coordinate the sum of these points, added in their order with every
  addition rounded to \<open>float\<close>, divided as a \<open>float\<close> by their number; it is (0, 0, 0) when
  there is no such point.  So removing a point with an infinite coordinate does not
  change it.  When no addition rounds (coordinates that are integers whose absolute
  values add up to at most \<open>2 ^ 24\<close>, and at most \<open>2 ^ 24\<close> points) it is the arithmetic mean
  rounded to \<open>float\<close>; for \<open>n\<close> identical points with integer coordinates \<open>a\<close>, \<open>n * |a| \<le> 2 ^ 24\<close>,
  and for a single point with \<open>float\<close> coordinates it is that point.  A point with a NaN
  coordinate is not rejected: the centroid then has NaN in that coordinate.
\<close>

theorem GetCentroid_float_mean_without_infinity:
  "position (GetCentroid fromPCL cfg t pc) =
     float_mean (filter (\<lambda>p. \<not> has_inf p) (fromPCL pc)) \<and>
   (fromPCL pc = ps1 @ p # ps2 \<and> has_inf p \<and> fromPCL' pc = ps1 @ ps2 \<longrightarrow>
      position (GetCentroid fromPCL cfg t pc) = position (GetCentroid fromPCL' cfg t pc)) \<and>
   (filter (\<lambda>p. \<not> has_inf p) (fromPCL pc) = map finite_point vs \<and> vs \<noteq> [] \<and>
    length vs \<le> 2 ^ 24 \<and> exact_sum (map fst vs) \<and> exact_sum (map (\<lambda>v. fst (snd v)) vs) \<and>
    exact_sum (map (\<lambda>v. snd (snd v)) vs) \<longrightarrow>
      position (GetCentroid fromPCL cfg t pc) =
        \<lparr>p_x = round_float (fst (mean3 vs)),
         p_y = round_float (fst (snd (mean3 vs))),
         p_z = round_float (snd (snd (mean3 vs)))\<rparr>) \<and>
   (fromPCL pc = replicate n (finite_point v) \<and> 0 < n \<and> n \<le> 2 ^ 24 \<and>
    small_integer n (fst v) \<and> small_integer n (fst (snd v)) \<and> small_integer n (snd (snd v)) \<longrightarrow>
      position (GetCentroid fromPCL cfg t pc) = finite_point v) \<and>
   (filter (\<lambda>p. \<not> has_inf p) (fromPCL pc) = [q1] \<and>
    is_float (p_x q1) \<and> is_float (p_y q1) \<and> is_float (p_z q1) \<longrightarrow>
      position (GetCentroid fromPCL cfg t pc) = q1) \<and>
   (q \<in> set (fromPCL pc) \<and> \<not> has_inf q \<longrightarrow>
      (p_x q = NaN \<longrightarrow> p_x (position (GetCentroid fromPCL cfg t pc)) = NaN) \<and>
      (p_y q = NaN \<longrightarrow> p_y (position (GetCentroid fromPCL cfg t pc)) = NaN) \<and>
      (p_z q = NaN \<longrightarrow> p_z (position (GetCentroid fromPCL cfg t pc)) = NaN))"
proof (intro conjI impI)
  show "position (GetCentroid fromPCL cfg t pc) =
     float_mean (filter (\<lambda>p. \<not> has_inf p) (fromPCL pc))"
    by (rule centroid_float_mean)
next
  assume "fromPCL pc = ps1 @ p # ps2 \<and> has_inf p \<and> fromPCL' pc = ps1 @ ps2"
  then show "position (GetCentroid fromPCL cfg t pc) = position (GetCentroid fromPCL' cfg t pc)"
    by (intro centroid_filter) simp
next
  assume "filter (\<lambda>p. \<not> has_inf p) (fromPCL pc) = map finite_point vs \<and> vs \<noteq> [] \<and>
    length vs \<le> 2 ^ 24 \<and> exact_sum (map fst vs) \<and> exact_sum (map (\<lambda>v. fst (snd v)) vs) \<and>
    exact_sum (map (\<lambda>v. snd (snd v)) vs)"
  then show "position (GetCentroid fromPCL cfg t pc) =
        \<lparr>p_x = round_float (fst (mean3 vs)),
         p_y = round_float (fst (snd (mean3 vs))),
         p_z = round_float (snd (snd (mean3 vs)))\<rparr>"
    by (intro centroid_exact_sums) simp_all
next
  assume "fromPCL pc = replicate n (finite_point v) \<and> 0 < n \<and> n \<le> 2 ^ 24 \<and>
    small_integer n (fst v) \<and> small_integer n (fst (snd v)) \<and> small_integer n (snd (snd v))"
  then show "position (GetCentroid fromPCL cfg t pc) = finite_point v"
    by (intro centroid_identical_points [where n = n]) simp_all
next
  assume "filter (\<lambda>p. \<not> has_inf p) (fromPCL pc) = [q1] \<and>
    is_float (p_x q1) \<and> is_float (p_y q1) \<and> is_float (p_z q1)"
  then show "position (GetCentroid fromPCL cfg t pc) = q1"
    by (intro centroid_single_point) simp_all
next
  assume a: "q \<in> set (fromPCL pc) \<and> \<not> has_inf q"
  { assume "p_x q = NaN"
    then show "p_x (position (GetCentroid fromPCL cfg t pc)) = NaN"
      using centroid_NaN [of q fromPCL pc cfg t] a by simp }
  { assume "p_y q = NaN"
    then show "p_y (position (GetCentroid fromPCL cfg t pc)) = NaN"
      using centroid_NaN [of q fromPCL pc cfg t] a by simp }
  { assume "p_z q = NaN"
    then show "p_z (position (GetCentroid fromPCL cfg t pc)) = NaN"
      using centroid_NaN [of q fromPCL pc cfg t] a by simp }
qed

theorem GetCentroid_float_mean_without_infinity_witness:
  "position (GetCentroid three_points config_example 0 cloud_2x2) =
     position (GetCentroid two_points config_example 0 cloud_2x2) \<and>
   position (GetCentroid three_points config_example 0 cloud_2x2) = finite_point (2, 3, 4) \<and>
   position (GetCentroid same_point_thrice config_example 0 cloud_2x2) =
     finite_point (3, 5, 7) \<and>
   position (GetCentroid half_point config_example 0 cloud_2x2) = finite_point (1 / 2, 1, 3) \<and>
   p_x (position (GetCentroid nan_and_finite_point config_example 0 cloud_2x2)) = NaN"
proof -
  have one: "point_one = finite_point (1, 1, 1)"
    by (simp add: point_one_def finite_point_def)
  have inf: "has_inf point_inf"
    by (simp add: has_inf_def point_inf_def)
  have a: "position (GetCentroid three_points config_example 0 cloud_2x2) =
     position (GetCentroid two_points config_example 0 cloud_2x2)"
    by (rule GetCentroid_float_mean_without_infinity
          [where ?ps1.0 = "[point_one]" and p = point_inf and ?ps2.0 = "[finite_point (3, 5, 7)]",
           THEN conjunct2, THEN conjunct1, rule_format])
       (simp add: three_points_def two_points_def inf)
  have m: "mean3 [(1, 1, 1), (3, 5, 7)] = (2, 3, 4)"
    by (simp add: mean3_def)
  have r: "round_float 2 = Finite 2" "round_float 3 = Finite 3" "round_float 4 = Finite 4"
    by (rule round_float_integer; simp)+
  have "position (GetCentroid three_points config_example 0 cloud_2x2) =
     \<lparr>p_x = round_float (fst (mean3 [(1, 1, 1), (3, 5, 7)])),
      p_y = round_float (fst (snd (mean3 [(1, 1, 1), (3, 5, 7)]))),
      p_z = round_float (snd (snd (mean3 [(1, 1, 1), (3, 5, 7)])))\<rparr>"
    by (rule GetCentroid_float_mean_without_infinity
          [THEN conjunct2, THEN conjunct2, THEN conjunct1, rule_format])
       (simp add: three_points_def inf one exact_sum_def)
  then have b: "position (GetCentroid three_points config_example 0 cloud_2x2) =
      finite_point (2, 3, 4)"
    by (simp add: m r finite_point_def)
  have c: "position (GetCentroid same_point_thrice config_example 0 cloud_2x2) =
     finite_point (3, 5, 7)"
    by (rule GetCentroid_float_mean_without_infinity
          [where n = 3, THEN conjunct2, THEN conjunct2, THEN conjunct2, THEN conjunct1,
           rule_format])
       (simp add: same_point_thrice_def small_integer_def)
  have h: "round_float (1 / 2) = Finite (1 / 2)"
    using round_float_representable [of 1 "- 1"] by (simp add: power_int_minus)
  have i: "round_float 1 = Finite 1"
    by (rule round_float_integer; simp)
  have d: "position (GetCentroid half_point config_example 0 cloud_2x2) =
     finite_point (1 / 2, 1, 3)"
    by (rule GetCentroid_float_mean_without_infinity
          [THEN conjunct2, THEN conjunct2, THEN conjunct2, THEN conjunct2, THEN conjunct1,
           rule_format])
       (simp add: half_point_def finite_point_def h i r has_inf_def point_inf_def)
  have n: "p_x (position (GetCentroid nan_and_finite_point config_example 0 cloud_2x2)) = NaN"
    by (rule GetCentroid_float_mean_without_infinity
          [where q = point_nan, THEN conjunct2, THEN conjunct2, THEN conjunct2, THEN conjunct2,
           THEN conjunct2, rule_format, THEN conjunct1, rule_format])
       (simp_all add: nan_and_finite_point_def point_nan_def has_inf_def)
  show ?thesis using a b c d n by blast
qed

text \<open>
  With the points (NaN, 0, 0) and (1, 1, 1) the centroid is (NaN, 1/2, 1/2); without the
  first point it is (1, 1, 1).  With two points at the largest \<open>float\<close> on the x axis the
  sum overflows and the centroid is at infinity.
\<close>

theorem GetCentroid_NaN_counterexample:
  "position (GetCentroid nan_and_finite_point config_example 0 cloud_2x2) =
     \<lparr>p_x = NaN, p_y = Finite (1 / 2), p_z = Finite (1 / 2)\<rparr> \<and>
   position (GetCentroid one_finite_point config_example 0 cloud_2x2) =
     \<lparr>p_x = Finite 1, p_y = Finite 1, p_z = Finite 1\<rparr> \<and>
   position (GetCentroid flt_max_twice config_example 0 cloud_2x2) =
     \<lparr>p_x = PInf, p_y = Finite 0, p_z = Finite 0\<rparr>"
proof (intro conjI)
  have r: "round_float 1 = Finite 1" "round_float 2 = Finite 2"
    by (rule round_float_integer; simp)+
  have h: "round_float (1 / 2) = Finite (1 / 2)"
    using round_float_representable [of 1 "- 1"] by (simp add: power_int_minus)
  show "position (GetCentroid nan_and_finite_point config_example 0 cloud_2x2) =
     \<lparr>p_x = NaN, p_y = Finite (1 / 2), p_z = Finite (1 / 2)\<rparr>"
    using r(2) [unfolded of_nat_numeral [symmetric, where ?'a = real]]
    by (simp add: centroid_float_mean float_mean_def fl_sum_def fl_div_def
          nan_and_finite_point_def point_nan_def point_one_def has_inf_def r h)
  show "position (GetCentroid one_finite_point config_example 0 cloud_2x2) =
     \<lparr>p_x = Finite 1, p_y = Finite 1, p_z = Finite 1\<rparr>"
    by (simp add: centroid_float_mean float_mean_def fl_sum_def fl_div_def
          one_finite_point_def point_one_def has_inf_def r)
  have m: "round_float ((2 ^ 24 - 1) * 2 ^ 104) = Finite ((2 ^ 24 - 1) * 2 ^ 104)"
    using round_float_representable [of "2 ^ 24 - 1" 104] by simp
  have o: "round_float ((2 ^ 24 - 1) * 2 ^ 104 + (2 ^ 24 - 1) * 2 ^ 104) = PInf"
    by (subst round_float_exponent [of 128]) (simp_all add: Let_def round_half_even_def)
  show "position (GetCentroid flt_max_twice config_example 0 cloud_2x2) =
     \<lparr>p_x = PInf, p_y = Finite 0, p_z = Finite 0\<rparr>"
    using m o
    by (simp add: centroid_float_mean float_mean_def fl_sum_def fl_div_def
          flt_max_twice_def has_inf_def r)
qed

subsection \<open>Cropping a box that is not inside the cloud\<close>

lemma copy_bytes_invalid:
  "i < e \<Longrightarrow> length src < e \<Longrightarrow> copy_bytes src i e acc = Inl InvalidRead"
proof (induction "length src - i" arbitrary: i acc)
  case 0
  then show ?case by (subst copy_bytes.simps) simp
next
  case (Suc k)
  then have lt: "i < length src" and k: "k = length src - Suc i" by simp_all
  have "copy_bytes src i e acc = copy_bytes src (Suc i) e (acc @ [src ! i])"
    using lt Suc.prems by (subst copy_bytes.simps) simp
  also have "\<dots> = Inl InvalidRead"
    using lt Suc.prems by (intro Suc.hyps(1) [OF k]) simp_all
  finally show ?case .
qed

lemma crop_cols_invalid:
  assumes "c \<le> c_max" and "c_max < 2 ^ 64 - 1" and "0 < point_step pc"
    and "length (data pc) < r * row_step pc + Suc c_max * point_step pc"
    and "r * row_step pc + Suc c_max * point_step pc < 2 ^ 64"
  shows "crop_cols pc r c c_max acc = Some (Inl InvalidRead)"
  using assms(1)
proof (induction "c_max - c" arbitrary: c acc)
  case 0
  then have c: "c = c_max" by simp
  let ?start = "r * row_step pc + c * point_step pc"
  have e: "?start + point_step pc = r * row_step pc + Suc c_max * point_step pc"
    by (simp add: c)
  have b: "?start + point_step pc < 2 ^ 64"
    unfolding e by (rule assms(5))
  then have nowrap: "?start mod 2 ^ 64 = ?start"
    "(?start + point_step pc) mod 2 ^ 64 = ?start + point_step pc"
    by simp_all
  have "copy_bytes (data pc) ?start (?start + point_step pc) acc = Inl InvalidRead"
    using assms(3,4) e by (intro copy_bytes_invalid) simp_all
  then show ?case
    using nowrap by (subst crop_cols.simps) (simp add: Let_def c)
next
  case (Suc k)
  then have lt: "c < c_max" and k: "k = c_max - Suc c" by simp_all
  let ?start = "r * row_step pc + c * point_step pc"
  have "Suc c * point_step pc \<le> Suc c_max * point_step pc"
    using lt by (intro mult_le_mono1) simp
  moreover have "Suc c * point_step pc = c * point_step pc + point_step pc" by simp
  ultimately have le: "?start + point_step pc \<le> r * row_step pc + Suc c_max * point_step pc"
    by linarith
  then have "?start + point_step pc < 2 ^ 64"
    using assms(5) by linarith
  then have nowrap: "?start mod 2 ^ 64 = ?start"
    "(?start + point_step pc) mod 2 ^ 64 = ?start + point_step pc"
    by simp_all
  have ne: "(c + 1) mod 2 ^ 64 = Suc c" using lt assms(2) by simp
  have next_c: "crop_cols pc r (Suc c) c_max acc' = Some (Inl InvalidRead)" for acc'
    using lt by (intro Suc.hyps(1) [OF k]) simp
  show ?case
  proof (cases "?start + point_step pc \<le> length (data pc)")
    case True
    show ?thesis
      using ne nowrap copy_bytes_take [OF True, of acc] next_c Suc.prems
      by (subst crop_cols.simps) (simp add: Let_def)
  next
    case False
    then have "copy_bytes (data pc) ?start (?start + point_step pc) acc = Inl InvalidRead"
      using assms(3) by (intro copy_bytes_invalid) simp_all
    then show ?thesis
      using nowrap Suc.prems by (subst crop_cols.simps) (simp add: Let_def)
  qed
qed

lemma crop_rows_invalid:
  assumes "r \<le> r_max" and "r_max < 2 ^ 64 - 1" and "c_min \<le> c_max" and "c_max < 2 ^ 64 - 1"
    and "0 < point_step pc"
    and "length (data pc) < r_max * row_step pc + Suc c_max * point_step pc"
    and "r_max * row_step pc + Suc c_max * point_step pc < 2 ^ 64"
  shows "crop_rows pc r r_max c_min c_max acc = Some (Inl InvalidRead)"
  using assms(1)
proof (induction "r_max - r" arbitrary: r acc)
  case 0
  then have r: "r = r_max" by simp
  have "crop_cols pc r c_min c_max acc = Some (Inl InvalidRead)"
    using assms by (intro crop_cols_invalid) (simp_all add: r)
  then show ?case by (subst crop_rows.simps) (simp add: r)
next
  case (Suc k)
  then have lt: "r < r_max" and k: "k = r_max - Suc r" by simp_all
  have "r * row_step pc \<le> r_max * row_step pc"
    using lt by (intro mult_le_mono1) simp
  then have bound: "r * row_step pc + Suc c_max * point_step pc < 2 ^ 64"
    using assms(7) by linarith
  have ne: "(r + 1) mod 2 ^ 64 = Suc r" using lt assms(2) by simp
  have next_r: "crop_rows pc (Suc r) r_max c_min c_max acc' = Some (Inl InvalidRead)" for acc'
    using lt by (intro Suc.hyps(1) [OF k]) simp
  show ?case
  proof (cases "r * row_step pc + Suc c_max * point_step pc \<le> length (data pc)")
    case True
    have "length (data pc) < 2 ^ 64" using assms(6,7) by linarith
    from crop_cols_closed [OF assms(4) True this, of c_min acc] show ?thesis
      using ne next_r Suc.prems by (subst crop_rows.simps) simp
  next
    case False
    then have "crop_cols pc r c_min c_max acc = Some (Inl InvalidRead)"
      using assms bound by (intro crop_cols_invalid) simp_all
    then show ?thesis using Suc.prems by (subst crop_rows.simps) simp
  qed
qed

lemma CropPointCloud_reads_past_buffer:
  assumes "reads_past_buffer pc bb"
  shows "CropPointCloud pc bb = Inl InvalidRead"
proof -
  have conv: "to_size_t (xmax bb) = nat (xmax bb)" "to_size_t (ymax bb) = nat (ymax bb)"
    "to_size_t (xmin bb) = nat (xmin bb)" "to_size_t (ymin bb) = nat (ymin bb)"
    using assms by (simp_all add: to_size_t_nat reads_past_buffer_def)
  have box: "xmin bb \<le> xmax bb" "xmax bb < 2 ^ 63" "ymin bb \<le> ymax bb" "ymax bb < 2 ^ 63"
    using assms by (simp_all add: reads_past_buffer_def)
  have lim: "nat (xmax bb) < 2 ^ 64 - 1" "nat (ymax bb) < 2 ^ 64 - 1"
    "nat (ymin bb) \<le> nat (ymax bb)" "nat (xmin bb) \<le> nat (xmax bb)"
    using box by simp_all
  have buf: "0 < point_step pc"
    "length (data pc) < nat (ymax bb) * row_step pc + Suc (nat (xmax bb)) * point_step pc"
    "nat (ymax bb) * row_step pc + Suc (nat (xmax bb)) * point_step pc < 2 ^ 64"
    using assms by (simp_all add: reads_past_buffer_def)
  have "crop_rows pc (nat (ymin bb)) (nat (ymax bb)) (nat (xmin bb)) (nat (xmax bb)) [] =
      Some (Inl InvalidRead)"
    using lim(3) lim(2) lim(4) lim(1) buf by (rule crop_rows_invalid)
  then show ?thesis
    by (simp add: CropPointCloud_def Let_def conv)
qed

text \<open>
  A bound of \<open>- 1\<close> is converted to the largest \<open>size_t\<close>: the loop over the columns goes on
  past the width of the cloud and reads past the end of the buffer.
\<close>

lemma CropPointCloud_bound_minus_one:
  "to_size_t (xmax box_minus_one) = 2 ^ 64 - 1 \<and>
   CropPointCloud cloud_2x2 box_minus_one = Inl InvalidRead"
  by (simp add: CropPointCloud_def cloud_2x2_def box_minus_one_def to_uint32_def to_size_t_def
        crop_rows.simps crop_cols.simps copy_bytes.simps Let_def)

text \<open>
  With a point step of 0 no byte is read, and with an upper bound of \<open>- 1\<close> the counter of
  the columns wraps to 0 after the largest \<open>size_t\<close>: the loop does not end.
\<close>

lemma crop_cols_no_return:
  assumes "point_step pc = 0" and "c < 2 ^ 64"
  shows "crop_cols pc r c (2 ^ 64 - 1) acc = None"
proof (rule ccontr)
  assume "crop_cols pc r c (2 ^ 64 - 1) acc \<noteq> None"
  then obtain y where y: "crop_cols pc r c (2 ^ 64 - 1) acc = Some y" by blast
  have "\<not> (point_step pc = 0 \<and> (2 ^ 64 - 1 :: nat) = 2 ^ 64 - 1 \<and> c < 2 ^ 64)"
  proof (rule crop_cols.raw_induct
      [where P = "\<lambda>a b d e f z. \<not> (point_step a = 0 \<and> e = 2 ^ 64 - 1 \<and> d < 2 ^ 64)", OF _ y])
    fix g :: "PointCloud2 \<Rightarrow> nat \<Rightarrow> nat \<Rightarrow> nat \<Rightarrow> byte list \<Rightarrow> (fault + byte list) option"
      and a :: PointCloud2 and b d e :: nat and f :: "byte list" and z :: "fault + byte list"
    assume IH: "\<And>a b d e f z. g a b d e f = Some z \<Longrightarrow>
        \<not> (point_step a = 0 \<and> e = 2 ^ 64 - 1 \<and> d < 2 ^ 64)"
    assume body: "(if d \<le> e
      then (let start = (b * row_step a + d * point_step a) mod 2 ^ 64;
                end_i = (start + point_step a) mod 2 ^ 64
            in case copy_bytes (data a) start end_i f of
                 Inl e \<Rightarrow> Some (Inl e)
               | Inr acc' \<Rightarrow> g a b ((d + 1) mod 2 ^ 64) e acc')
      else Some (Inr f)) = Some z"
    show "\<not> (point_step a = 0 \<and> e = 2 ^ 64 - 1 \<and> d < 2 ^ 64)"
    proof
      assume h: "point_step a = 0 \<and> e = 2 ^ 64 - 1 \<and> d < 2 ^ 64"
      then have le: "d \<le> e" by simp
      have cp: "copy_bytes (data a) ((b * row_step a) mod 2 ^ 64)
          ((b * row_step a) mod 2 ^ 64) f = Inr f"
        by (simp add: copy_bytes.simps)
      have "g a b ((d + 1) mod 2 ^ 64) e f = Some z"
        using body h le cp by (simp add: Let_def)
      from IH [OF this] h show False by simp
    qed
  qed
  with assms show False by simp
qed

lemma crop_rows_no_return:
  assumes "point_step pc = 0" and "r \<le> r_max" and "c < 2 ^ 64"
  shows "crop_rows pc r r_max c (2 ^ 64 - 1) acc = None"
proof -
  have "crop_cols pc r c (2 ^ 64 - 1) acc = None"
    using assms(1) assms(3) by (rule crop_cols_no_return)
  then show ?thesis
    using assms(2) by (subst crop_rows.simps) simp
qed

lemma CropPointCloud_no_return:
  "CropPointCloud cloud_no_step box_minus_one = Inl NoReturn"
proof -
  have "crop_rows cloud_no_step 0 0 0 (2 ^ 64 - 1) [] = None"
    by (rule crop_rows_no_return) (simp_all add: cloud_no_step_def)
  then show ?thesis
    by (simp add: CropPointCloud_def Let_def box_minus_one_def to_size_t_def)
qed

text \<open>
  Claim C8, as the code has it.  \<open>CropPointCloud\<close> compares the box neither with the
  width nor with the height of the cloud, and it clamps nothing.  When every byte the
  box addresses lies inside the buffer, it returns, with no error, the cloud of width
  \<open>xmax - xmin + 1\<close> and height \<open>ymax - ymin + 1\<close> built from the bytes at the offsets
  \<open>r * row_step + c * point_step\<close>, also for \<open>xmax \<ge> width\<close> or \<open>ymax \<ge> height\<close>.  When
  the box addresses a byte past the end of the buffer, the code indexes the vector out
  of range (the fault \<open>InvalidRead\<close> of the model), which C++ leaves undefined.
\<close>

theorem CropPointCloud_unchecked:
  "(reads_in_buffer pc bb \<longrightarrow>
      (\<exists>m. CropPointCloud pc bb = Inr m \<and>
           width m = to_uint32 (xmax bb - xmin bb + 1) \<and>
           height m = to_uint32 (ymax bb - ymin bb + 1) \<and>
           point_step m = point_step pc \<and>
           data m = concat (region_points pc (nat (ymin bb)) (nat (ymax bb))
                                          (nat (xmin bb)) (nat (xmax bb))) \<and>
           length (data m) =
             nat (ymax bb - ymin bb + 1) * nat (xmax bb - xmin bb + 1) * point_step pc)) \<and>
   (reads_past_buffer pc bb \<longrightarrow> CropPointCloud pc bb = Inl InvalidRead)"
proof (intro conjI impI)
  assume rib: "reads_in_buffer pc bb"
  then have buf: "nat (ymax bb) * row_step pc + Suc (nat (xmax bb)) * point_step pc \<le> length (data pc)"
    by (simp add: reads_in_buffer_def)
  have W: "nat (xmax bb - xmin bb + 1) = Suc (nat (xmax bb)) - nat (xmin bb)"
    and H: "nat (ymax bb - ymin bb + 1) = Suc (nat (ymax bb)) - nat (ymin bb)"
    using rib unfolding reads_in_buffer_def by linarith+
  show "\<exists>m. CropPointCloud pc bb = Inr m \<and>
           width m = to_uint32 (xmax bb - xmin bb + 1) \<and>
           height m = to_uint32 (ymax bb - ymin bb + 1) \<and>
           point_step m = point_step pc \<and>
           data m = concat (region_points pc (nat (ymin bb)) (nat (ymax bb))
                                          (nat (xmin bb)) (nat (xmax bb))) \<and>
           length (data m) =
             nat (ymax bb - ymin bb + 1) * nat (xmax bb - xmin bb + 1) * point_step pc"
    by (simp add: CropPointCloud_reads_in_buffer [OF rib] region_bytes_concat [symmetric]
          length_region_bytes [OF buf] W H)
next
  assume "reads_past_buffer pc bb"
  then show "CropPointCloud pc bb = Inl InvalidRead"
    by (rule CropPointCloud_reads_past_buffer)
qed

theorem CropPointCloud_unchecked_witness:
  "reads_in_buffer cloud_2x2 box_too_wide \<and> \<not> in_range cloud_2x2 box_too_wide \<and>
   (\<exists>m. CropPointCloud cloud_2x2 box_too_wide = Inr m \<and> width m = 2 \<and> height m = 1 \<and>
        length (data m) = 4 \<and> data m = point_bytes cloud_2x2 1 0 @ point_bytes cloud_2x2 0 1) \<and>
   reads_past_buffer cloud_2x2 box_below \<and>
   CropPointCloud cloud_2x2 box_below = Inl InvalidRead"
proof -
  have rib: "reads_in_buffer cloud_2x2 box_too_wide"
    by (simp add: reads_in_buffer_def cloud_2x2_def box_too_wide_def)
  have out: "\<not> in_range cloud_2x2 box_too_wide"
    by (simp add: in_range_def cloud_2x2_def box_too_wide_def)
  from CropPointCloud_unchecked [of cloud_2x2 box_too_wide] rib obtain m where
    m: "CropPointCloud cloud_2x2 box_too_wide = Inr m"
      "width m = to_uint32 (xmax box_too_wide - xmin box_too_wide + 1)"
      "height m = to_uint32 (ymax box_too_wide - ymin box_too_wide + 1)"
      "data m = concat (region_points cloud_2x2 (nat (ymin box_too_wide))
          (nat (ymax box_too_wide)) (nat (xmin box_too_wide)) (nat (xmax box_too_wide)))"
      "length (data m) = nat (ymax box_too_wide - ymin box_too_wide + 1) *
          nat (xmax box_too_wide - xmin box_too_wide + 1) * point_step cloud_2x2"
    by blast
  have w: "width m = 2" and h: "height m = 1"
    using m(2,3) by (simp_all add: box_too_wide_def to_uint32_def)
  have l: "length (data m) = 4"
    using m(5) by (simp add: box_too_wide_def cloud_2x2_def)
  have d: "data m = point_bytes cloud_2x2 1 0 @ point_bytes cloud_2x2 0 1"
    using m(4) by (simp add: box_too_wide_def cloud_2x2_def region_points_def point_bytes_def upt_rec)
  have rpb: "reads_past_buffer cloud_2x2 box_below"
    by (simp add: reads_past_buffer_def cloud_2x2_def box_below_def)
  have f: "CropPointCloud cloud_2x2 box_below = Inl InvalidRead"
    using CropPointCloud_unchecked [of cloud_2x2 box_below] rpb by blast
  show ?thesis using rib out m(1) w h l d rpb f by blast
qed

text \<open>
  In the 2 x 2 sample cloud the box with \<open>xmin = 1\<close>, \<open>xmax = 2\<close>, \<open>ymin = ymax = 0\<close>
  reaches past the width.  The result is a cloud of two points; the second one is the
  point at pixel (0, 1) of the original.
\<close>

theorem CropPointCloud_out_of_range_counterexample:
  "xmax box_too_wide \<ge> int (width cloud_2x2) \<and>
   CropPointCloud cloud_2x2 box_too_wide =
     Inr \<lparr>header = \<lparr>frame_id = ''camera'', stamp = 7\<rparr>, height = 1, width = 2, pc_fields = [],
          is_bigendian = False, point_step = 2, row_step = 4,
          data = [3, 4, 5, 6], is_dense = False\<rparr>"
  by (simp add: CropPointCloud_def cloud_2x2_def box_too_wide_def to_uint32_def to_size_t_def
        crop_rows.simps crop_cols.simps copy_bytes.simps Let_def)

subsection \<open>The reporter\<close>

lemma Point_eta: "\<lparr>p_x = p_x p, p_y = p_y p, p_z = p_z p\<rparr> = (p :: Point)"
  by simp

lemma ReportArtifacts_idle:
  "\<not> have_an_artifact_to_report s \<Longrightarrow> ReportArtifacts ser dst s = s"
  by (simp add: ReportArtifacts_def)

lemma ReportArtifacts_pending:
  assumes "have_an_artifact_to_report s"
  shows "sent (ReportArtifacts ser dst s) =
           sent s @ [(snd (ser (artifact_msg (artifact_to_report s))), dst)]"
    and "have_an_artifact_to_report (ReportArtifacts ser dst s)"
    and "artifact_to_report (ReportArtifacts ser dst s) = artifact_to_report s"
  using assms
  by (simp_all add: ReportArtifacts_def Let_def artifact_msg_def Point_eta split: prod.splits)

lemma ticks_idle:
  "\<not> have_an_artifact_to_report s \<Longrightarrow> ticks n ser dst s = s"
  by (induction n) (simp_all add: ReportArtifacts_idle)

lemma ticks_pending:
  assumes "have_an_artifact_to_report s"
  shows "sent (ticks n ser dst s) =
           sent s @ replicate n (snd (ser (artifact_msg (artifact_to_report s))), dst) \<and>
         have_an_artifact_to_report (ticks n ser dst s) \<and>
         artifact_to_report (ticks n ser dst s) = artifact_to_report s"
  using assms
proof (induction n arbitrary: s)
  case 0
  then show ?case by simp
next
  case (Suc n)
  note step = ReportArtifacts_pending [OF Suc.prems, of ser dst]
  from Suc.IH [OF step(2)] show ?case
    by (simp add: step replicate_app_Cons_same)
qed

lemma BaseStationCallback_clears:
  "have_an_artifact_to_report (BaseStationCallback parse src dst port d s) = False"
  "sent (BaseStationCallback parse src dst port d s) = sent s"
  "artifact_to_report (BaseStationCallback parse src dst port d s) = artifact_to_report s"
  by (simp_all add: BaseStationCallback_def Let_def split: prod.splits)

lemma store_artifact_fields:
  "have_an_artifact_to_report (store_artifact t what pose cfg s)"
  "artifact_to_report (store_artifact t what pose cfg s) = \<lparr>type = t, location = position pose\<rparr>"
  "sent (store_artifact t what pose cfg s) = sent s"
  "ros_log (store_artifact t what pose cfg s) =
     ros_log s @ [INFO_detected what (artifact_origin_frame cfg) (position pose)]"
  by (simp_all add: store_artifact_def Let_def Point_eta)

text \<open>
  Claim C3.  A tick of the timer with no pending artifact changes nothing, so nothing is
  sent, however many ticks go by.  A tick with a pending artifact hands exactly one
  message to the communication client: the output of the serializer for the stored type
  and location, addressed to the base station; the flag and the artifact stay as they
  are, so \<open>n\<close> ticks send \<open>n\<close> copies.  After an acknowledgment the next tick sends nothing;
  after a new detection the next tick sends the new artifact.
\<close>

theorem ReportArtifacts_sends_while_pending:
  "(\<not> have_an_artifact_to_report s \<longrightarrow>
      ReportArtifacts ser dst s = s \<and> ticks n ser dst s = s) \<and>
   (have_an_artifact_to_report s \<longrightarrow>
      sent (ReportArtifacts ser dst s) =
        sent s @ [(snd (ser (artifact_msg (artifact_to_report s))), dst)] \<and>
      have_an_artifact_to_report (ReportArtifacts ser dst s) \<and>
      artifact_to_report (ReportArtifacts ser dst s) = artifact_to_report s \<and>
      sent (ticks n ser dst s) =
        sent s @ replicate n (snd (ser (artifact_msg (artifact_to_report s))), dst) \<and>
      have_an_artifact_to_report (ticks n ser dst s) \<and>
      artifact_to_report (ticks n ser dst s) = artifact_to_report s) \<and>
   sent (ReportArtifacts ser dst (BaseStationCallback parse src me port d s)) = sent s \<and>
   sent (ReportArtifacts ser dst (store_artifact t what pose cfg s)) =
     sent s @ [(snd (ser \<lparr>msg_type = t, msg_pose = position pose\<rparr>), dst)]"
proof (intro conjI impI)
  assume idle: "\<not> have_an_artifact_to_report s"
  show "ReportArtifacts ser dst s = s" using idle by (rule ReportArtifacts_idle)
  show "ticks n ser dst s = s" using idle by (rule ticks_idle)
next
  assume p: "have_an_artifact_to_report s"
  show "sent (ReportArtifacts ser dst s) =
        sent s @ [(snd (ser (artifact_msg (artifact_to_report s))), dst)]"
    using p by (rule ReportArtifacts_pending)
  show "have_an_artifact_to_report (ReportArtifacts ser dst s)"
    using p by (rule ReportArtifacts_pending)
  show "artifact_to_report (ReportArtifacts ser dst s) = artifact_to_report s"
    using p by (rule ReportArtifacts_pending)
  show "sent (ticks n ser dst s) =
        sent s @ replicate n (snd (ser (artifact_msg (artifact_to_report s))), dst)"
    using ticks_pending [OF p] by simp
  show "have_an_artifact_to_report (ticks n ser dst s)"
    using ticks_pending [OF p] by simp
  show "artifact_to_report (ticks n ser dst s) = artifact_to_report s"
    using ticks_pending [OF p] by simp
next
  show "sent (ReportArtifacts ser dst (BaseStationCallback parse src me port d s)) = sent s"
    by (simp add: ReportArtifacts_idle BaseStationCallback_clears)
next
  show "sent (ReportArtifacts ser dst (store_artifact t what pose cfg s)) =
     sent s @ [(snd (ser \<lparr>msg_type = t, msg_pose = position pose\<rparr>), dst)]"
    by (simp add: ReportArtifacts_pending store_artifact_fields artifact_msg_def)
qed

theorem ReportArtifacts_sends_while_pending_witness:
  "have_an_artifact_to_report world_pending \<and>
   sent (ReportArtifacts serialize_ok ''base_station'' world_pending) =
     [(''artifact'', ''base_station'')] \<and>
   sent (ticks 3 serialize_ok ''base_station'' world_pending) =
     [(''artifact'', ''base_station''), (''artifact'', ''base_station''),
      (''artifact'', ''base_station'')] \<and>
   have_an_artifact_to_report (ticks 3 serialize_ok ''base_station'' world_pending) \<and>
   \<not> have_an_artifact_to_report (world_pending\<lparr>have_an_artifact_to_report := False\<rparr>) \<and>
   ticks 3 serialize_ok ''base_station'' (world_pending\<lparr>have_an_artifact_to_report := False\<rparr>) =
     world_pending\<lparr>have_an_artifact_to_report := False\<rparr>"
proof -
  have p: "have_an_artifact_to_report world_pending"
    by (simp add: world_pending_def)
  have i: "\<not> have_an_artifact_to_report (world_pending\<lparr>have_an_artifact_to_report := False\<rparr>)"
    by simp
  have s0: "sent world_pending = []"
    by (simp add: world_pending_def)
  have n3: "replicate 3 x = [x, x, x]" for x :: "string \<times> string"
    by (simp add: numeral_3_eq_3)
  show ?thesis
    using ReportArtifacts_sends_while_pending [of world_pending serialize_ok "''base_station''" 3] p
      ReportArtifacts_sends_while_pending
        [of "world_pending\<lparr>have_an_artifact_to_report := False\<rparr>" serialize_ok "''base_station''" 3] i
    by (simp add: s0 n3 serialize_ok_def)
qed

text \<open>
  Claim C4, evaluated.  A message that the parser rejects is logged as an error, and the
  callback goes on: it logs the receipt of an artifact and clears the flag of the pending
  artifact.
\<close>

theorem BaseStationCallback_malformed_clears_pending:
  "fst (parse_fails ''garbage'') = False \<and>
   have_an_artifact_to_report world_pending \<and>
   BaseStationCallback parse_fails ''base_station'' ''anymal_b'' 4100 ''garbage'' world_pending =
     world_pending
       \<lparr>have_an_artifact_to_report := False,
        ros_log := [ERROR_deserializing,
                    INFO_received \<lparr>p_x = Finite 0, p_y = Finite 0, p_z = Finite 0\<rparr>]\<rparr>"
  by (simp add: BaseStationCallback_def Let_def parse_fails_def world_pending_def)

text \<open>
  Claim C7, evaluated.  When the serializer fails, the failure is logged and the output
  string (here empty) is sent all the same; the flag stays set.
\<close>

theorem ReportArtifacts_sends_after_failed_serialization:
  "fst (serialize_fails (artifact_msg (artifact_to_report world_pending))) = False \<and>
   ReportArtifacts serialize_fails ''base_station'' world_pending =
     world_pending
       \<lparr>ros_log := [ERROR_serializing (artifact_msg (artifact_to_report world_pending))],
        sent := [([], ''base_station'')]\<rparr>"
  by (simp add: ReportArtifacts_def Let_def serialize_fails_def world_pending_def artifact_msg_def)

subsection \<open>One box\<close>

lemma classify_vocabulary: "classify label = None \<longleftrightarrow> label \<notin> set vocabulary"
  by (simp add: classify_def vocabulary_def)

lemma process_box_crop_fault:
  "CropPointCloud cloud box = Inl e \<Longrightarrow> process_box fromPCL toTS tf cfg t cloud box s = None"
  by (simp add: process_box_def)

lemma process_box_tf_fault:
  "CropPointCloud cloud box = Inr cropped \<Longrightarrow>
   tf (GetCentroid fromPCL cfg t cropped) (artifact_origin_frame cfg) = Inl e \<Longrightarrow>
   process_box fromPCL toTS tf cfg t cloud box s = Some (Inl e)"
  by (simp add: process_box_def Let_def)

lemma process_box_classified:
  "CropPointCloud cloud box = Inr cropped \<Longrightarrow>
   tf (GetCentroid fromPCL cfg t cropped) (artifact_origin_frame cfg) = Inr sp \<Longrightarrow>
   process_box fromPCL toTS tf cfg t cloud box s =
     Some (Inr (case classify (Class box) of
                  None \<Rightarrow> s
                | Some (ty, what) \<Rightarrow> store_artifact ty what sp cfg s))"
  by (simp add: process_box_def Let_def classify_def)

lemma process_boxes_append:
  "process_boxes fromPCL toTS tf cfg now cloud pre k s = Some (Inr s') \<Longrightarrow>
   process_boxes fromPCL toTS tf cfg now cloud (pre @ rest) k s =
     process_boxes fromPCL toTS tf cfg now cloud rest (k + length pre) s'"
proof (induction pre arbitrary: k s)
  case Nil
  then show ?case by simp
next
  case (Cons box pre)
  then show ?case by (auto split: option.splits sum.splits)
qed

lemma process_box_object_frame:
  "process_box fromPCL toTS tf (cfg\<lparr>object_frame := f\<rparr>) t cloud box s =
   process_box fromPCL toTS' tf (cfg\<lparr>object_frame := f'\<rparr>) t cloud box s"
  by (simp add: process_box_def Let_def GetCentroid_def store_artifact_def split: sum.splits)

lemma process_boxes_object_frame:
  "process_boxes fromPCL toTS tf (cfg\<lparr>object_frame := f\<rparr>) now cloud boxes k s =
   process_boxes fromPCL toTS' tf (cfg\<lparr>object_frame := f'\<rparr>) now cloud boxes k s"
proof (induction boxes arbitrary: k s)
  case Nil
  then show ?case by simp
next
  case (Cons box boxes)
  have "process_box fromPCL toTS tf (cfg\<lparr>object_frame := f\<rparr>) (now k) cloud box s =
        process_box fromPCL toTS' tf (cfg\<lparr>object_frame := f'\<rparr>) (now k) cloud box s"
    by (rule process_box_object_frame)
  then show ?case
    by (simp add: Cons.IH split: option.splits sum.splits)
qed

lemma crop_box_labelled:
  "CropPointCloud cloud_2x2 (box_labelled l) =
     Inr \<lparr>header = \<lparr>frame_id = ''camera'', stamp = 7\<rparr>, height = 1, width = 2, pc_fields = [],
          is_bigendian = False, point_step = 2, row_step = 4,
          data = [1, 2, 3, 4], is_dense = False\<rparr>"
  by (simp add: CropPointCloud_def cloud_2x2_def box_labelled_def to_uint32_def to_size_t_def
        crop_rows.simps crop_cols.simps copy_bytes.simps Let_def)

lemma centroid_one_finite_point:
  "GetCentroid one_finite_point config_example t c =
     \<lparr>pose_header = \<lparr>frame_id = ''anymal_b/base/camera_front'', stamp = t\<rparr>,
      position = point_one,
      orientation = (Finite 0, Finite 0, Finite 0, Finite 1)\<rparr>"
proof -
  have "round_float 1 = Finite 1"
    by (rule round_float_integer; simp)
  then show ?thesis
    by (simp add: GetCentroid_def Let_def one_finite_point_def config_example_def point_one_def
          CentroidPoint_init_def CentroidPoint_add_def CentroidPoint_get_def has_inf_def
          fl_div_def)
qed

subsection \<open>A label outside the vocabulary\<close>

text \<open>
  Claim C9.  The label of a box is compared with the five strings \<open>Backpack\<close>, \<open>Survivor\<close>,
  \<open>Cell Phone\<close>, \<open>Fire Extinguisher\<close> and \<open>Drill\<close>, each comparison an exact match, after the
  crop, the centroid and the transform of the box have been computed.  For a box whose
  label is none of the five, with a crop that returns and a transform that gives a pose,
  the iteration for the box ends without an exception and with the state as it was:
  the stored artifact, the flag, the log (no detection is logged) and the messages sent
  are unchanged.  So is the state after \<open>ProcessDetection\<close> on that box alone.
\<close>

theorem unmatched_label_leaves_state:
  assumes "Class box \<notin> set vocabulary"
    and "CropPointCloud cloud box = Inr cropped"
    and "tf (GetCentroid fromPCL cfg (now 0) cropped) (artifact_origin_frame cfg) = Inr sp"
  shows "process_box fromPCL toTS tf cfg (now 0) cloud box s = Some (Inr s) \<and>
         ProcessDetection fromPCL toTS tf cfg now cloud [box] s = Some (Inr s)"
proof -
  have none: "classify (Class box) = None"
    using assms(1) by (simp add: classify_vocabulary)
  have "process_box fromPCL toTS tf cfg (now 0) cloud box s =
          Some (Inr (case classify (Class box) of
                       None \<Rightarrow> s
                     | Some (ty, what) \<Rightarrow> store_artifact ty what sp cfg s))"
    using assms(2) assms(3) by (rule process_box_classified)
  then have one: "process_box fromPCL toTS tf cfg (now 0) cloud box s = Some (Inr s)"
    by (simp add: none)
  then have "ProcessDetection fromPCL toTS tf cfg now cloud [box] s = Some (Inr s)"
    by (simp add: ProcessDetection_def)
  with one show ?thesis by blast
qed

theorem unmatched_label_leaves_state_witness:
  "Class (box_labelled ''Cat'') \<notin> set vocabulary \<and>
   Class (box_labelled ''backpack'') \<notin> set vocabulary \<and>
   process_box one_finite_point no_tf_stamped tf_identity config_example (clock_k 0) cloud_2x2
     (box_labelled ''Cat'') world_pending = Some (Inr world_pending) \<and>
   ProcessDetection one_finite_point no_tf_stamped tf_identity config_example clock_k cloud_2x2
     [box_labelled ''Cat''] world_pending = Some (Inr world_pending) \<and>
   ProcessDetection one_finite_point no_tf_stamped tf_identity config_example clock_k cloud_2x2
     [box_labelled ''backpack''] world_backpack = Some (Inr world_backpack)"
proof -
  have l: "Class (box_labelled ''Cat'') \<notin> set vocabulary"
    "Class (box_labelled ''backpack'') \<notin> set vocabulary"
    by (simp_all add: box_labelled_def vocabulary_def)
  have tf: "tf_identity (GetCentroid one_finite_point config_example (clock_k 0) c)
      (artifact_origin_frame config_example) =
     Inr ((GetCentroid one_finite_point config_example (clock_k 0) c)
            \<lparr>pose_header := \<lparr>frame_id = artifact_origin_frame config_example,
                               stamp = clock_k 0\<rparr>\<rparr>)" for c
    by (simp add: tf_identity_def centroid_one_finite_point)
  have a: "process_box one_finite_point no_tf_stamped tf_identity config_example (clock_k 0)
       cloud_2x2 (box_labelled ''Cat'') world_pending = Some (Inr world_pending) \<and>
     ProcessDetection one_finite_point no_tf_stamped tf_identity config_example clock_k cloud_2x2
       [box_labelled ''Cat''] world_pending = Some (Inr world_pending)"
    using l(1) crop_box_labelled tf by (rule unmatched_label_leaves_state)
  have b: "process_box one_finite_point no_tf_stamped tf_identity config_example (clock_k 0)
       cloud_2x2 (box_labelled ''backpack'') world_backpack = Some (Inr world_backpack) \<and>
     ProcessDetection one_finite_point no_tf_stamped tf_identity config_example clock_k cloud_2x2
       [box_labelled ''backpack''] world_backpack = Some (Inr world_backpack)"
    using l(2) crop_box_labelled tf by (rule unmatched_label_leaves_state)
  show ?thesis using l a b by blast
qed

subsection \<open>A box without a point that passes the filter\<close>

text \<open>
  Claim C5, as the code has it.  \<open>GetCentroid\<close> has no error to signal and
  \<open>ProcessDetection\<close> does not look at the number of accumulated points: for every box
  whose crop and transform succeed and whose label is in the vocabulary, whatever the
  points of the cropped cloud are, the transformed centroid is stored with the type and
  the flag of the pending artifact is set.  When no point of the cropped cloud passes
  the filter (each has an infinite coordinate), nothing is added to the accumulator and
  the centroid is the position (0, 0, 0), so it is the transform of (0, 0, 0) that is
  stored.
\<close>

theorem empty_centroid_is_stored:
  assumes "CropPointCloud cloud box = Inr cropped"
    and "tf (GetCentroid fromPCL cfg t cropped) (artifact_origin_frame cfg) = Inr sp"
    and "classify (Class box) = Some (ty, what)"
  shows "(\<exists>s'. process_box fromPCL toTS tf cfg t cloud box s = Some (Inr s') \<and>
               have_an_artifact_to_report s' \<and>
               artifact_to_report s' = \<lparr>type = ty, location = position sp\<rparr>) \<and>
         (filter (\<lambda>p. \<not> has_inf p) (fromPCL cropped) = [] \<longrightarrow>
            position (GetCentroid fromPCL cfg t cropped) = finite_point (0, 0, 0))"
proof
  have "process_box fromPCL toTS tf cfg t cloud box s =
          Some (Inr (case classify (Class box) of
                       None \<Rightarrow> s
                     | Some (ty, what) \<Rightarrow> store_artifact ty what sp cfg s))"
    using assms(1) assms(2) by (rule process_box_classified)
  then have "process_box fromPCL toTS tf cfg t cloud box s =
      Some (Inr (store_artifact ty what sp cfg s))"
    by (simp add: assms(3))
  then show "\<exists>s'. process_box fromPCL toTS tf cfg t cloud box s = Some (Inr s') \<and>
               have_an_artifact_to_report s' \<and>
               artifact_to_report s' = \<lparr>type = ty, location = position sp\<rparr>"
    by (simp add: store_artifact_fields)
  show "filter (\<lambda>p. \<not> has_inf p) (fromPCL cropped) = [] \<longrightarrow>
          position (GetCentroid fromPCL cfg t cropped) = finite_point (0, 0, 0)"
    by (simp add: centroid_empty)
qed

lemma centroid_only_infinite_points:
  "GetCentroid only_infinite_points config_example t c =
     \<lparr>pose_header = \<lparr>frame_id = ''anymal_b/base/camera_front'', stamp = t\<rparr>,
      position = \<lparr>p_x = Finite 0, p_y = Finite 0, p_z = Finite 0\<rparr>,
      orientation = (Finite 0, Finite 0, Finite 0, Finite 1)\<rparr>"
  by (simp add: GetCentroid_def Let_def only_infinite_points_def config_example_def point_inf_def
        CentroidPoint_init_def CentroidPoint_get_def PointXYZ_init_def)

lemma tf_identity_only_infinite_points:
  "tf_identity (GetCentroid only_infinite_points config_example t c)
      (artifact_origin_frame config_example) =
    Inr \<lparr>pose_header = \<lparr>frame_id = ''artifact_origin'', stamp = t\<rparr>,
         position = \<lparr>p_x = Finite 0, p_y = Finite 0, p_z = Finite 0\<rparr>,
         orientation = (Finite 0, Finite 0, Finite 0, Finite 1)\<rparr>"
  by (simp add: centroid_only_infinite_points tf_identity_def)
     (simp add: config_example_def)

theorem empty_centroid_is_stored_witness:
  "filter (\<lambda>p. \<not> has_inf p) (only_infinite_points cloud_2x2) = [] \<and>
   classify (Class (box_labelled ''Drill'')) = Some (TYPE_DRILL, ''Detected a drill!'') \<and>
   (\<exists>cropped. CropPointCloud cloud_2x2 (box_labelled ''Drill'') = Inr cropped \<and>
      position (GetCentroid only_infinite_points config_example 0 cropped) =
        finite_point (0, 0, 0)) \<and>
   (\<exists>s'. process_box only_infinite_points no_tf_stamped tf_identity config_example 0 cloud_2x2
           (box_labelled ''Drill'') world_idle = Some (Inr s') \<and>
         have_an_artifact_to_report s' \<and>
         artifact_to_report s' =
           \<lparr>type = TYPE_DRILL, location = \<lparr>p_x = Finite 0, p_y = Finite 0, p_z = Finite 0\<rparr>\<rparr>)"
proof -
  have f: "filter (\<lambda>p. \<not> has_inf p) (only_infinite_points c) = []" for c
    by (simp add: only_infinite_points_def has_inf_def point_inf_def)
  have c: "classify (Class (box_labelled ''Drill'')) = Some (TYPE_DRILL, ''Detected a drill!'')"
    by (simp add: classify_def box_labelled_def)
  note inst = empty_centroid_is_stored
      [where cloud = cloud_2x2 and box = "box_labelled ''Drill''" and fromPCL = only_infinite_points
         and tf = tf_identity and cfg = config_example and t = 0 and ty = TYPE_DRILL
         and what = "''Detected a drill!''" and toTS = no_tf_stamped and s = world_idle,
       OF crop_box_labelled tf_identity_only_infinite_points c]
  have stored: "\<exists>s'. process_box only_infinite_points no_tf_stamped tf_identity config_example 0
           cloud_2x2 (box_labelled ''Drill'') world_idle = Some (Inr s') \<and>
         have_an_artifact_to_report s' \<and>
         artifact_to_report s' =
           \<lparr>type = TYPE_DRILL, location = \<lparr>p_x = Finite 0, p_y = Finite 0, p_z = Finite 0\<rparr>\<rparr>"
    using inst by simp
  have "\<exists>cropped. CropPointCloud cloud_2x2 (box_labelled ''Drill'') = Inr cropped \<and>
      position (GetCentroid only_infinite_points config_example 0 cropped) = finite_point (0, 0, 0)"
    using inst f by (simp add: crop_box_labelled)
  then show ?thesis using f c stored by blast
qed

text \<open>
  A box labelled \<open>Drill\<close> whose points all have an infinite coordinate, with the identity
  as transform: the artifact is stored at (0, 0, 0), the flag is set and the detection
  is logged.
\<close>

theorem empty_centroid_counterexample:
  "list_all has_inf (only_infinite_points cloud_2x2) \<and>
   process_box only_infinite_points no_tf_stamped tf_identity config_example 0 cloud_2x2
     (box_labelled ''Drill'') world_idle =
   Some (Inr \<lparr>artifact_to_report =
          \<lparr>type = TYPE_DRILL, location = \<lparr>p_x = Finite 0, p_y = Finite 0, p_z = Finite 0\<rparr>\<rparr>,
        have_an_artifact_to_report = True,
        ros_log = [INFO_detected ''Detected a drill!'' ''artifact_origin''
                     \<lparr>p_x = Finite 0, p_y = Finite 0, p_z = Finite 0\<rparr>],
        sent = []\<rparr>)"
proof
  show "list_all has_inf (only_infinite_points cloud_2x2)"
    by (simp add: only_infinite_points_def has_inf_def point_inf_def)
  have "process_box only_infinite_points no_tf_stamped tf_identity config_example 0 cloud_2x2
     (box_labelled ''Drill'') world_idle =
     Some (Inr (case classify (Class (box_labelled ''Drill'')) of
            None \<Rightarrow> world_idle
          | Some (ty, what) \<Rightarrow>
              store_artifact ty what
                \<lparr>pose_header = \<lparr>frame_id = ''artifact_origin'', stamp = 0\<rparr>,
                 position = \<lparr>p_x = Finite 0, p_y = Finite 0, p_z = Finite 0\<rparr>,
                 orientation = (Finite 0, Finite 0, Finite 0, Finite 1)\<rparr>
                config_example world_idle))"
    using crop_box_labelled tf_identity_only_infinite_points by (rule process_box_classified)
  then show "process_box only_infinite_points no_tf_stamped tf_identity config_example 0 cloud_2x2
     (box_labelled ''Drill'') world_idle =
   Some (Inr \<lparr>artifact_to_report =
          \<lparr>type = TYPE_DRILL, location = \<lparr>p_x = Finite 0, p_y = Finite 0, p_z = Finite 0\<rparr>\<rparr>,
        have_an_artifact_to_report = True,
        ros_log = [INFO_detected ''Detected a drill!'' ''artifact_origin''
                     \<lparr>p_x = Finite 0, p_y = Finite 0, p_z = Finite 0\<rparr>],
        sent = []\<rparr>)"
    by (simp add: classify_def box_labelled_def store_artifact_def Let_def world_idle_def
          config_example_def)
qed

subsection \<open>A transform that fails\<close>

lemma tf_unavailable_at_1_one_finite_point:
  "tf_unavailable_at_1 (GetCentroid one_finite_point config_example t c)
      (artifact_origin_frame config_example) =
    (if t = 1 then Inl TransformException
     else Inr \<lparr>pose_header = \<lparr>frame_id = ''artifact_origin'', stamp = t\<rparr>,
               position = point_one,
               orientation = (Finite 0, Finite 0, Finite 0, Finite 1)\<rparr>)"
  by (simp add: centroid_one_finite_point tf_unavailable_at_1_def tf_identity_def)
     (simp add: config_example_def)

lemma process_backpack_sample:
  "process_box one_finite_point no_tf_stamped tf_unavailable_at_1 config_example 0 cloud_2x2
     (box_labelled ''Backpack'') world_idle = Some (Inr world_backpack)"
proof -
  have "tf_unavailable_at_1 (GetCentroid one_finite_point config_example 0 c)
      (artifact_origin_frame config_example) =
     Inr \<lparr>pose_header = \<lparr>frame_id = ''artifact_origin'', stamp = 0\<rparr>,
               position = point_one,
               orientation = (Finite 0, Finite 0, Finite 0, Finite 1)\<rparr>" for c
    by (simp add: tf_unavailable_at_1_one_finite_point)
  with crop_box_labelled
  have "process_box one_finite_point no_tf_stamped tf_unavailable_at_1 config_example 0 cloud_2x2
     (box_labelled ''Backpack'') world_idle =
     Some (Inr (case classify (Class (box_labelled ''Backpack'')) of
            None \<Rightarrow> world_idle
          | Some (ty, what) \<Rightarrow>
              store_artifact ty what
                \<lparr>pose_header = \<lparr>frame_id = ''artifact_origin'', stamp = 0\<rparr>,
                 position = point_one,
                 orientation = (Finite 0, Finite 0, Finite 0, Finite 1)\<rparr>
                config_example world_idle))"
    by (rule process_box_classified)
  then show ?thesis
    by (simp add: classify_def box_labelled_def store_artifact_def Let_def world_idle_def
          world_backpack_def config_example_def Point_eta)
qed

lemma process_drill_sample:
  "process_box one_finite_point no_tf_stamped tf_unavailable_at_1 config_example 2 cloud_2x2
     (box_labelled ''Drill'') world_backpack =
   Some (Inr (world_backpack
         \<lparr>artifact_to_report := \<lparr>type = TYPE_DRILL, location = point_one\<rparr>,
          ros_log := ros_log world_backpack @
            [INFO_detected ''Detected a drill!'' ''artifact_origin'' point_one]\<rparr>))"
proof -
  have "tf_unavailable_at_1 (GetCentroid one_finite_point config_example 2 c)
      (artifact_origin_frame config_example) =
     Inr \<lparr>pose_header = \<lparr>frame_id = ''artifact_origin'', stamp = 2\<rparr>,
               position = point_one,
               orientation = (Finite 0, Finite 0, Finite 0, Finite 1)\<rparr>" for c
    by (simp add: tf_unavailable_at_1_one_finite_point)
  with crop_box_labelled
  have "process_box one_finite_point no_tf_stamped tf_unavailable_at_1 config_example 2 cloud_2x2
     (box_labelled ''Drill'') world_backpack =
     Some (Inr (case classify (Class (box_labelled ''Drill'')) of
            None \<Rightarrow> world_backpack
          | Some (ty, what) \<Rightarrow>
              store_artifact ty what
                \<lparr>pose_header = \<lparr>frame_id = ''artifact_origin'', stamp = 2\<rparr>,
                 position = point_one,
                 orientation = (Finite 0, Finite 0, Finite 0, Finite 1)\<rparr>
                config_example world_backpack))"
    by (rule process_box_classified)
  then show ?thesis
    by (simp add: classify_def box_labelled_def store_artifact_def Let_def
          world_backpack_def config_example_def Point_eta)
qed

lemma process_survivor_sample:
  "process_box one_finite_point no_tf_stamped tf_unavailable_at_1 config_example 1 cloud_2x2
     (box_labelled ''Survivor'') s = Some (Inl TransformException)"
  by (rule process_box_tf_fault [OF crop_box_labelled])
     (simp add: tf_unavailable_at_1_one_finite_point)

text \<open>
  Claim C6, as the code has it.  No function of the file catches the exception of
  \<open>tf_buffer.transform\<close>.  When the transform of one box fails, the exception leaves
  \<open>ProcessDetection\<close>: the boxes before that box have been processed and their effect
  on the state stays, nothing is logged for the failure, and the boxes after it are not
  processed, whatever they are.
\<close>

theorem transform_failure_leaves_ProcessDetection:
  assumes "ProcessDetection fromPCL toTS tf cfg now cloud pre s = Some (Inr s')"
    and "CropPointCloud cloud box = Inr cropped"
    and "tf (GetCentroid fromPCL cfg (now (length pre)) cropped) (artifact_origin_frame cfg) = Inl e"
  shows "ProcessDetection fromPCL toTS tf cfg now cloud (pre @ box # post) s = Some (Inl (e, s'))"
proof -
  have "process_box fromPCL toTS tf cfg (now (length pre)) cloud box s' = Some (Inl e)"
    using assms(2) assms(3) by (rule process_box_tf_fault)
  moreover have "process_boxes fromPCL toTS tf cfg now cloud (pre @ box # post) 0 s =
      process_boxes fromPCL toTS tf cfg now cloud (box # post) (0 + length pre) s'"
    using assms(1) unfolding ProcessDetection_def by (rule process_boxes_append)
  ultimately show ?thesis
    by (simp add: ProcessDetection_def)
qed

theorem transform_failure_leaves_ProcessDetection_witness:
  "ProcessDetection one_finite_point no_tf_stamped tf_unavailable_at_1 config_example clock_k
     cloud_2x2 [box_labelled ''Backpack''] world_idle = Some (Inr world_backpack) \<and>
   tf_unavailable_at_1 (GetCentroid one_finite_point config_example (clock_k 1) cloud_2x2)
     (artifact_origin_frame config_example) = Inl TransformException \<and>
   ProcessDetection one_finite_point no_tf_stamped tf_unavailable_at_1 config_example clock_k
     cloud_2x2 [box_labelled ''Backpack'', box_labelled ''Survivor'', box_labelled ''Drill'']
     world_idle = Some (Inl (TransformException, world_backpack))"
proof -
  have pre: "ProcessDetection one_finite_point no_tf_stamped tf_unavailable_at_1 config_example
     clock_k cloud_2x2 [box_labelled ''Backpack''] world_idle = Some (Inr world_backpack)"
    by (simp add: ProcessDetection_def clock_k_def process_backpack_sample)
  have tf: "tf_unavailable_at_1
      (GetCentroid one_finite_point config_example (clock_k (length [box_labelled ''Backpack''])) c)
      (artifact_origin_frame config_example) = Inl TransformException" for c
    by (simp add: tf_unavailable_at_1_one_finite_point clock_k_def)
  have "ProcessDetection one_finite_point no_tf_stamped tf_unavailable_at_1 config_example clock_k
     cloud_2x2 ([box_labelled ''Backpack''] @ box_labelled ''Survivor'' # [box_labelled ''Drill''])
     world_idle = Some (Inl (TransformException, world_backpack))"
    using pre crop_box_labelled tf by (rule transform_failure_leaves_ProcessDetection)
  then show ?thesis
    using pre tf [of cloud_2x2] by simp
qed

text \<open>
  Three boxes labelled \<open>Backpack\<close>, \<open>Survivor\<close> and \<open>Drill\<close>; the transform is unavailable
  for the time stamp of the second box only.  \<open>ProcessDetection\<close> ends with the exception
  and with the backpack as the stored artifact; nothing is logged for the failure.  The
  third box is not processed, although processing it would have stored the drill.
\<close>

theorem transform_failure_counterexample:
  "ProcessDetection one_finite_point no_tf_stamped tf_unavailable_at_1 config_example clock_k
     cloud_2x2 [box_labelled ''Backpack'', box_labelled ''Survivor'', box_labelled ''Drill'']
     world_idle = Some (Inl (TransformException, world_backpack)) \<and>
   ros_log world_backpack = [INFO_detected ''Detected a backapack!'' ''artifact_origin'' point_one] \<and>
   process_box one_finite_point no_tf_stamped tf_unavailable_at_1 config_example (clock_k 2)
     cloud_2x2 (box_labelled ''Drill'') world_backpack =
   Some (Inr (world_backpack
         \<lparr>artifact_to_report := \<lparr>type = TYPE_DRILL, location = point_one\<rparr>,
          ros_log := ros_log world_backpack @
            [INFO_detected ''Detected a drill!'' ''artifact_origin'' point_one]\<rparr>))"
proof (intro conjI)
  show "ProcessDetection one_finite_point no_tf_stamped tf_unavailable_at_1 config_example clock_k
     cloud_2x2 [box_labelled ''Backpack'', box_labelled ''Survivor'', box_labelled ''Drill'']
     world_idle = Some (Inl (TransformException, world_backpack))"
    by (simp add: ProcessDetection_def clock_k_def process_backpack_sample
          process_survivor_sample [unfolded One_nat_def])
  show "ros_log world_backpack =
      [INFO_detected ''Detected a backapack!'' ''artifact_origin'' point_one]"
    by (simp add: world_backpack_def)
  show "process_box one_finite_point no_tf_stamped tf_unavailable_at_1 config_example (clock_k 2)
     cloud_2x2 (box_labelled ''Drill'') world_backpack =
   Some (Inr (world_backpack
         \<lparr>artifact_to_report := \<lparr>type = TYPE_DRILL, location = point_one\<rparr>,
          ros_log := ros_log world_backpack @
            [INFO_detected ''Detected a drill!'' ''artifact_origin'' point_one]\<rparr>))"
    by (simp add: clock_k_def process_drill_sample)
qed

subsection \<open>The unused transform stamp\<close>

text \<open>
  Claim C10.  The value of \<open>ToTransformStamped\<close> is bound and never read, and
  \<open>object_frame\<close> is used for this call only.  Two runs of \<open>ProcessDetection\<close> that differ
  in \<open>object_frame\<close> and in what \<open>ToTransformStamped\<close> returns, on the same cloud, boxes,
  transform, clock and state, have the same outcome: the same stored artifact and flag,
  the same log, the same exception if any.
\<close>

theorem ProcessDetection_ignores_object_frame:
  "ProcessDetection fromPCL toTS tf (cfg\<lparr>object_frame := f\<rparr>) now cloud boxes s =
   ProcessDetection fromPCL toTS' tf (cfg\<lparr>object_frame := f'\<rparr>) now cloud boxes s"
  unfolding ProcessDetection_def by (rule process_boxes_object_frame)

theorem ProcessDetection_ignores_object_frame_witness:
  "ProcessDetection one_finite_point no_tf_stamped tf_identity
     (config_example\<lparr>object_frame := ''object''\<rparr>) clock_k cloud_2x2
     [box_labelled ''Drill''] world_idle =
   ProcessDetection one_finite_point frames_tf_stamped tf_identity
     (config_example\<lparr>object_frame := ''elsewhere''\<rparr>) clock_k cloud_2x2
     [box_labelled ''Drill''] world_idle"
  by (rule ProcessDetection_ignores_object_frame)

end
